theory Spec2Isabelle
  imports Complex_Main "HOL-Library.AList" "HOL-Library.Sublist" "HOL-Library.Log_Nat"
begin

section \<open>Voice evaluation backend: session correlation and report normalisation\<close>

text \<open>
  A shallow embedding of \<^verbatim>\<open>server.py\<close>: the three process-wide dictionaries
  (\<^verbatim>\<open>sessions\<close>, \<^verbatim>\<open>call_to_session\<close>, \<^verbatim>\<open>assistant_to_session\<close>), the endpoint
  \<^verbatim>\<open>start_session\<close>, the webhook \<^verbatim>\<open>vapi_webhook\<close> and its helper \<^verbatim>\<open>iso_to_ms\<close>.

  Python exceptions are values of a sum type, the dictionaries are passed in and returned,
  and what the code obtains from outside the repository (environment variables, the clock,
  the parsing builtins of the interpreter, \<^verbatim>\<open>datetime\<close>, the Supabase client) is a field of
  the record \<open>env\<close> or an argument.
\<close>

subsection \<open>Python values\<close>

text \<open>
  The exceptions the modelled code can raise. \<open>External\<close> is an exception raised by a
  collaborator (the request body parser, the storage client), with its message.
\<close>

datatype exn = AttributeError | TypeError | ValueError | OverflowError | IndexError
  | External string

text \<open>
  A Python float, by its value: a finite double is the rational it denotes, negative zero
  is kept apart (it prints differently), and the three non-finite values are those
  \<^verbatim>\<open>json.loads\<close> produces for \<^verbatim>\<open>Infinity\<close>, \<^verbatim>\<open>-Infinity\<close> and \<^verbatim>\<open>NaN\<close>.
\<close>

datatype pyfloat = Finite rat | NegZero | PosInf | NegInf | NaN

text \<open>
  What \<^verbatim>\<open>request.json()\<close> returns. A \<^verbatim>\<open>dict\<close> is an association list in insertion
  order (Python dictionaries are the lists with distinct keys; lookup takes the first
  match). A \<^verbatim>\<open>str\<close> is a list of characters, one element for each code point.
\<close>

datatype json = JNull | JBool bool | JInt int | JFloat pyfloat | JStr string
  | JArr "json list" | JObj "(string \<times> json) list"

text \<open>Truth value testing, as \<^verbatim>\<open>if x\<close>, \<^verbatim>\<open>x or y\<close> and \<^verbatim>\<open>x and y\<close> apply it.\<close>

fun truthy :: "json \<Rightarrow> bool" where
  "truthy JNull = False"
| "truthy (JBool b) = b"
| "truthy (JInt i) = (i \<noteq> 0)"
| "truthy (JFloat f) = (f \<noteq> Finite 0 \<and> f \<noteq> NegZero)"
| "truthy (JStr s) = (s \<noteq> [])"
| "truthy (JArr xs) = (xs \<noteq> [])"
| "truthy (JObj kvs) = (kvs \<noteq> [])"

text \<open>Sequencing of computations that may raise: the first exception wins.\<close>

definition bind_exn :: "exn + 'a \<Rightarrow> ('a \<Rightarrow> exn + 'b) \<Rightarrow> exn + 'b" where
  "bind_exn m f = (case m of Inl e \<Rightarrow> Inl e | Inr x \<Rightarrow> f x)"

text \<open>\<^verbatim>\<open>obj.get(key, default)\<close>: only a \<^verbatim>\<open>dict\<close> has the method.\<close>

definition dict_get :: "json \<Rightarrow> string \<Rightarrow> json \<Rightarrow> exn + json" where
  "dict_get obj key dflt =
     (case obj of
        JObj kvs \<Rightarrow> Inr (case map_of kvs key of Some v \<Rightarrow> v | None \<Rightarrow> dflt)
      | _ \<Rightarrow> Inl AttributeError)"

text \<open>\<^verbatim>\<open>list(obj.values())\<close>.\<close>

definition dict_values :: "json \<Rightarrow> exn + json list" where
  "dict_values obj = (case obj of JObj kvs \<Rightarrow> Inr (map snd kvs) | _ \<Rightarrow> Inl AttributeError)"

text \<open>\<^verbatim>\<open>xs[0]\<close> on a list.\<close>

definition index0 :: "'a list \<Rightarrow> exn + 'a" where
  "index0 xs = (case xs of [] \<Rightarrow> Inl IndexError | x # _ \<Rightarrow> Inr x)"

text \<open>
  \<^verbatim>\<open>x[:n]\<close>: a string and a list are cut to their first \<open>n\<close> elements; no other JSON value
  can be sliced (a \<^verbatim>\<open>dict\<close> raises as well: \<^verbatim>\<open>TypeError\<close>, and \<^verbatim>\<open>KeyError\<close> from Python 3.12,
  rendered here by the one constructor).
\<close>

fun slice_to :: "nat \<Rightarrow> json \<Rightarrow> exn + json" where
  "slice_to n (JStr s) = Inr (JStr (take n s))"
| "slice_to n (JArr xs) = Inr (JArr (take n xs))"
| "slice_to n _ = Inl TypeError"

subsection \<open>Decimal rendering of integers\<close>

definition digit_char :: "nat \<Rightarrow> char" where
  "digit_char d = ''0123456789'' ! d"

fun show_nat :: "nat \<Rightarrow> string" where
  "show_nat n =
     (if n < 10 then [digit_char n]
      else show_nat (n div 10) @ [digit_char (n mod 10)])"

declare show_nat.simps [simp del]

definition show_int :: "int \<Rightarrow> string" where
  "show_int i = (if i < 0 then CHR ''-'' # show_nat (nat (- i)) else show_nat (nat i))"

subsection \<open>Dictionary keys\<close>

text \<open>
  The keys of \<^verbatim>\<open>call_to_session\<close> and \<^verbatim>\<open>assistant_to_session\<close> are whatever hashable value
  the event carries. Python compares numeric keys by value (\<^verbatim>\<open>1\<close>, \<^verbatim>\<open>1.0\<close> and \<^verbatim>\<open>True\<close> are one
  key); a list or a dict is unhashable.
\<close>

datatype pykey = KNone | KNum pyfloat | KStr string

fun key_of :: "json \<Rightarrow> exn + pykey" where
  "key_of JNull = Inr KNone"
| "key_of (JBool b) = Inr (KNum (Finite (if b then 1 else 0)))"
| "key_of (JInt i) = Inr (KNum (Finite (of_int i)))"
| "key_of (JFloat f) = Inr (KNum (if f = NegZero then Finite 0 else f))"
| "key_of (JStr s) = Inr (KStr s)"
| "key_of (JArr xs) = Inl TypeError"
| "key_of (JObj kvs) = Inl TypeError"

text \<open>
  The two dictionaries, as association lists. A NaN equals nothing, itself included, and
  every request parses its own float objects: a lookup or a removal under a NaN key finds
  nothing, and an entry stored under one can never be read again, so the model does not
  record it.
\<close>

definition lookup :: "(pykey \<times> 'v) list \<Rightarrow> pykey \<Rightarrow> 'v option" where
  "lookup m k = (if k = KNum NaN then None else map_of m k)"

definition store :: "(pykey \<times> 'v) list \<Rightarrow> pykey \<Rightarrow> 'v \<Rightarrow> (pykey \<times> 'v) list" where
  "store m k v = (if k = KNum NaN then m else AList.update k v m)"

definition pop :: "(pykey \<times> 'v) list \<Rightarrow> pykey \<Rightarrow> (pykey \<times> 'v) list" where
  "pop m k = (if k = KNum NaN then m else AList.delete k m)"

subsection \<open>Models\<close>

text \<open>\<^verbatim>\<open>SessionRequest\<close>, the body of \<^verbatim>\<open>POST /session/start\<close>.\<close>

record SessionRequest =
  req_role :: string
  req_candidate_name :: string
  req_user_email :: string

text \<open>The \<^verbatim>\<open>Field(min_length=1, max_length=100)\<close> constraint on \<^verbatim>\<open>candidate_name\<close>.\<close>

definition SessionRequest_valid :: "SessionRequest \<Rightarrow> bool" where
  "SessionRequest_valid req =
     (1 \<le> length (req_candidate_name req) \<and> length (req_candidate_name req) \<le> 100)"

text \<open>The dictionary \<^verbatim>\<open>db_data\<close> handed to the \<^verbatim>\<open>evaluations\<close> table.\<close>

record db_data =
  session_id :: string
  user_email :: string
  candidate_name :: string
  role :: string
  duration_minutes :: int
  overall_score :: pyfloat
  recommendation :: string
  transcript :: json
  score_1 :: int
  score_2 :: int
  score_3 :: int
  score_4 :: int
  score_5 :: int
  strength_1 :: string
  strength_2 :: string
  strength_3 :: string
  improvement_1 :: string
  improvement_2 :: string

subsection \<open>The environment\<close>

text \<open>
  Everything the code reads from outside the repository:
  \<^item> \<open>getenv\<close>: \<^verbatim>\<open>os.getenv\<close>;
  \<^item> \<open>float_of_str\<close>, \<open>int_of_str\<close>: \<^verbatim>\<open>float(s)\<close> and \<^verbatim>\<open>int(s)\<close> on a string, \<open>None\<close> for
    \<^verbatim>\<open>ValueError\<close>;
  \<^item> \<open>str_of_float\<close>: \<^verbatim>\<open>str(f)\<close> on a float; \<open>repr_of\<close>: \<^verbatim>\<open>str(v)\<close> on a list or a dict;
  \<^item> \<open>str_of_exn\<close>: \<^verbatim>\<open>str(e)\<close> on an exception;
  \<^item> \<open>fromisoformat_ms\<close>: \<^verbatim>\<open>int(datetime.fromisoformat(s).timestamp() * 1000)\<close>, \<open>None\<close> when
    the call raises;
  \<^item> \<open>insert_evaluation\<close>: \<^verbatim>\<open>supabase.table("evaluations").insert(d).execute()\<close>, \<open>None\<close> when it
    returns and \<open>Some e\<close> when it raises \<open>e\<close>.
\<close>

record env =
  getenv :: "string \<Rightarrow> string option"
  VAPI_PUBLIC_KEY :: string
  float_of_str :: "string \<Rightarrow> pyfloat option"
  int_of_str :: "string \<Rightarrow> int option"
  str_of_float :: "pyfloat \<Rightarrow> string"
  repr_of :: "json \<Rightarrow> string"
  str_of_exn :: "exn \<Rightarrow> string"
  fromisoformat_ms :: "string \<Rightarrow> int option"
  insert_evaluation :: "db_data \<Rightarrow> exn option"

subsection \<open>The builtins \<^verbatim>\<open>float\<close>, \<^verbatim>\<open>int\<close> and \<^verbatim>\<open>str\<close>\<close>

text \<open>
  \<^verbatim>\<open>float(i)\<close> on an integer: exact up to 53 bits, rounded to the nearest double (ties to
  even) beyond, \<^verbatim>\<open>OverflowError\<close> when the result exceeds the largest double.
\<close>

definition float_of_int :: "int \<Rightarrow> exn + pyfloat" where
  "float_of_int i =
     (if \<bar>i\<bar> \<le> 2 ^ 53 then Inr (Finite (of_int i))
      else
        let sh = nat (bitlen \<bar>i\<bar>) - 53;
            q = \<bar>i\<bar> div 2 ^ sh;
            r = \<bar>i\<bar> mod 2 ^ sh;
            half = 2 ^ (sh - 1);
            q' = (if r > half \<or> (r = half \<and> odd q) then q + 1 else q);
            m = q' * 2 ^ sh
        in if m \<ge> 2 ^ 1024 then Inl OverflowError else Inr (Finite (of_int (sgn i * m))))"

fun py_float :: "env \<Rightarrow> json \<Rightarrow> exn + pyfloat" where
  "py_float E JNull = Inl TypeError"
| "py_float E (JBool b) = Inr (Finite (if b then 1 else 0))"
| "py_float E (JInt i) = float_of_int i"
| "py_float E (JFloat f) = Inr f"
| "py_float E (JStr s) = (case float_of_str E s of None \<Rightarrow> Inl ValueError | Some f \<Rightarrow> Inr f)"
| "py_float E (JArr xs) = Inl TypeError"
| "py_float E (JObj kvs) = Inl TypeError"

text \<open>\<^verbatim>\<open>int(f)\<close> on a float truncates towards zero.\<close>

fun int_of_float :: "pyfloat \<Rightarrow> exn + int" where
  "int_of_float (Finite r) = Inr (if r < 0 then - \<lfloor>- r\<rfloor> else \<lfloor>r\<rfloor>)"
| "int_of_float NegZero = Inr 0"
| "int_of_float PosInf = Inl OverflowError"
| "int_of_float NegInf = Inl OverflowError"
| "int_of_float NaN = Inl ValueError"

fun py_int :: "env \<Rightarrow> json \<Rightarrow> exn + int" where
  "py_int E JNull = Inl TypeError"
| "py_int E (JBool b) = Inr (if b then 1 else 0)"
| "py_int E (JInt i) = Inr i"
| "py_int E (JFloat f) = int_of_float f"
| "py_int E (JStr s) = (case int_of_str E s of None \<Rightarrow> Inl ValueError | Some i \<Rightarrow> Inr i)"
| "py_int E (JArr xs) = Inl TypeError"
| "py_int E (JObj kvs) = Inl TypeError"

fun py_str :: "env \<Rightarrow> json \<Rightarrow> string" where
  "py_str E JNull = ''None''"
| "py_str E (JBool b) = (if b then ''True'' else ''False'')"
| "py_str E (JInt i) = show_int i"
| "py_str E (JFloat f) = str_of_float E f"
| "py_str E (JStr s) = s"
| "py_str E (JArr xs) = repr_of E (JArr xs)"
| "py_str E (JObj kvs) = repr_of E (JObj kvs)"

subsection \<open>Role configurations\<close>

record role_config =
  title :: string
  description :: string
  assistant_id :: "string option"
  criteria :: "string list"
  scenario :: string

definition ROLES :: "env \<Rightarrow> (string \<times> role_config) list" where
  "ROLES E =
     [(''project_manager'',
       \<lparr>title = ''Project Manager'',
        description = ''Project delivery and team management evaluation'',
        assistant_id = getenv E ''ASSISTANT_ID_PROJECT_MANAGER'',
        criteria = [''Problem Solving'', ''Leadership'', ''Communication'', ''Accountability'',
          ''Planning''],
        scenario = ''We're 3 months behind schedule and 40% over budget on the Bangalore project. What happened and what's your plan?''\<rparr>),
      (''team_lead'',
       \<lparr>title = ''Team Lead'',
        description = ''Technical leadership and team management'',
        assistant_id = getenv E ''ASSISTANT_ID_TEAM_LEAD'',
        criteria = [''Mentoring'', ''Technical Decisions'', ''Communication'',
          ''Conflict Resolution'', ''Process''],
        scenario = ''Team velocity dropped 35% and two senior developers resigned. What's happening?''\<rparr>),
      (''product_owner'',
       \<lparr>title = ''Product Owner'',
        description = ''Product strategy and stakeholder management'',
        assistant_id = getenv E ''ASSISTANT_ID_PRODUCT_OWNER'',
        criteria = [''Strategy'', ''Data-Driven'', ''Stakeholders'', ''User Focus'',
          ''Prioritization''],
        scenario = ''Last 3 features failed adoption targets and churn is up 15%. Explain your strategy.''\<rparr>),
      (''sales_manager'',
       \<lparr>title = ''Sales Manager'',
        description = ''Sales performance and team coaching'',
        assistant_id = getenv E ''ASSISTANT_ID_SALES_MANAGER'',
        criteria = [''Sales Skills'', ''Coaching'', ''Accounts'', ''Forecasting'', ''Pressure''],
        scenario = ''Missed quota by 30%, pipeline at 1.5x instead of 3x, three accounts at risk. What's your plan?''\<rparr>)]"

subsection \<open>In-memory storage\<close>

text \<open>The dictionary stored in \<^verbatim>\<open>sessions\<close> for one session.\<close>

record session =
  sess_session_id :: string
  sess_role :: string
  sess_role_title :: string
  sess_candidate :: string
  sess_criteria :: "string list"
  sess_assistant_id :: string
  sess_user_email :: string
  sess_started :: string

text \<open>
  The three module-level dictionaries. \<^verbatim>\<open>sessions\<close> keeps its insertion order, which the
  webhook reads (\<^verbatim>\<open>list(sessions.keys())[-1]\<close>): assigning to a new key appends, assigning
  to an existing key replaces the value where it stands.
\<close>

record state =
  sessions :: "(string \<times> session) list"
  call_to_session :: "(pykey \<times> string) list"
  assistant_to_session :: "(pykey \<times> string) list"

definition initial_state :: state where
  "initial_state = \<lparr>sessions = [], call_to_session = [], assistant_to_session = []\<rparr>"

text \<open>
  What holds of the dictionaries whenever a handler starts: a dictionary has no key twice,
  \<^verbatim>\<open>start_session\<close> only makes identifiers that begin with \<^verbatim>\<open>session_\<close>, and the webhook
  links a call only to an identifier that passed \<^verbatim>\<open>if session_id\<close>.
\<close>

definition state_ok :: "state \<Rightarrow> bool" where
  "state_ok st =
     (distinct (map fst (sessions st)) \<and> distinct (map fst (call_to_session st))
      \<and> distinct (map fst (assistant_to_session st))
      \<and> [] \<notin> set (map fst (sessions st)) \<and> [] \<notin> set (map snd (call_to_session st)))"

subsection \<open>\<^verbatim>\<open>POST /session/start\<close>\<close>

datatype HTTPException = HTTPException nat string

record start_response =
  success :: bool
  sessionId :: string
  publicKey :: string
  assistantId :: string
  scenario_prompt :: string

text \<open>
  \<open>timestamp\<close> is the clock reading \<^verbatim>\<open>int(datetime.now().timestamp() * 1000)\<close> and \<open>started\<close>
  the second reading \<^verbatim>\<open>datetime.now().isoformat()\<close>.
\<close>

definition start_session ::
  "env \<Rightarrow> int \<Rightarrow> string \<Rightarrow> state \<Rightarrow> SessionRequest \<Rightarrow> HTTPException + start_response \<times> state"
where
  "start_session E timestamp started st req =
     (case map_of (ROLES E) (req_role req) of
        None \<Rightarrow> Inl (HTTPException 400 ''Invalid role'')
      | Some rl \<Rightarrow>
          (case assistant_id rl of
             None \<Rightarrow> Inl (HTTPException 503 ''Assistant not configured'')
           | Some aid \<Rightarrow>
               if aid = [] then Inl (HTTPException 503 ''Assistant not configured'')
               else if CHR ''@'' \<notin> set (req_user_email req)
               then Inl (HTTPException 400 ''Invalid email address'')
               else
                 let sid = ''session_'' @ req_role req @ ''_'' @ show_int timestamp;
                     sess = \<lparr>sess_session_id = sid,
                             sess_role = req_role req,
                             sess_role_title = title rl,
                             sess_candidate = req_candidate_name req,
                             sess_criteria = criteria rl,
                             sess_assistant_id = aid,
                             sess_user_email = req_user_email req,
                             sess_started = started\<rparr>
                 in Inr (\<lparr>success = True,
                          sessionId = sid,
                          publicKey = VAPI_PUBLIC_KEY E,
                          assistantId = aid,
                          scenario_prompt = scenario rl\<rparr>,
                         st\<lparr>sessions := AList.update sid sess (sessions st),
                            assistant_to_session :=
                              store (assistant_to_session st) (KStr aid) sid\<rparr>)))"

text \<open>
  The endpoint as the framework serves it: a body that violates the field constraints of
  \<^verbatim>\<open>SessionRequest\<close> is rejected (status 422) before \<^verbatim>\<open>start_session\<close> runs.
\<close>

definition post_session_start ::
  "env \<Rightarrow> int \<Rightarrow> string \<Rightarrow> state \<Rightarrow> SessionRequest \<Rightarrow> HTTPException + start_response \<times> state"
where
  "post_session_start E timestamp started st req =
     (if SessionRequest_valid req then start_session E timestamp started st req
      else Inl (HTTPException 422 ''Unprocessable Entity''))"

subsection \<open>\<^verbatim>\<open>POST /webhook/vapi\<close>\<close>

text \<open>The dictionary the webhook returns.\<close>

datatype response = Status_ok | Status_error string

text \<open>\<^verbatim>\<open>event = message.get("type") or payload.get("type")\<close>\<close>

definition event_type :: "json \<Rightarrow> json \<Rightarrow> exn + json" where
  "event_type message payload =
     bind_exn (dict_get message ''type'' JNull) (\<lambda>t.
       if truthy t then Inr t else dict_get payload ''type'' JNull)"

text \<open>The branch \<^verbatim>\<open>if event == "assistant-request"\<close>, up to its \<^verbatim>\<open>return\<close>.\<close>

definition assistant_request :: "state \<Rightarrow> json \<Rightarrow> exn + state" where
  "assistant_request st message =
     bind_exn (dict_get message ''call'' (JObj [])) (\<lambda>call.
     bind_exn (dict_get call ''id'' JNull) (\<lambda>call_id.
     bind_exn (dict_get message ''assistantId'' JNull) (\<lambda>a.
     bind_exn (if truthy a then Inr a
               else bind_exn (dict_get message ''assistant'' (JObj [])) (\<lambda>assistant.
                      dict_get assistant ''id'' JNull)) (\<lambda>aid.
     bind_exn (key_of aid) (\<lambda>ak.
       case lookup (assistant_to_session st) ak of
         None \<Rightarrow> Inr st
       | Some sid \<Rightarrow>
           if sid = [] then Inr st
           else bind_exn (key_of call_id) (\<lambda>ck.
                  Inr (st\<lparr>call_to_session := store (call_to_session st) ck sid\<rparr>)))))))"

text \<open>
  \<^verbatim>\<open>session_id = call_to_session.get(call_id) or (list(sessions.keys())[-1] if sessions else None)\<close>
\<close>

definition resolve_session_id :: "state \<Rightarrow> pykey \<Rightarrow> string option" where
  "resolve_session_id st ck =
     (let fallback = (if sessions st \<noteq> [] then Some (fst (last (sessions st))) else None)
      in case lookup (call_to_session st) ck of
           None \<Rightarrow> fallback
         | Some sid \<Rightarrow> if sid \<noteq> [] then Some sid else fallback)"

text \<open>The dynamic extraction of the scores: the value of \<^verbatim>\<open>structured\<close>.\<close>

definition structured_scores :: "json \<Rightarrow> exn + json" where
  "structured_scores message =
     bind_exn (dict_get message ''artifact'' (JObj [])) (\<lambda>artifact.
     bind_exn (dict_get artifact ''structuredOutputs'' (JObj [])) (\<lambda>structured_outputs.
       if truthy structured_outputs
       then bind_exn (dict_values structured_outputs) (\<lambda>vs.
            bind_exn (index0 vs) (\<lambda>first_output.
              dict_get first_output ''result'' (JObj [])))
       else bind_exn (dict_get message ''analysis'' (JObj [])) (\<lambda>analysis.
              dict_get analysis ''structuredData'' (JObj []))))"

text \<open>\<^verbatim>\<open>iso_str.replace('Z', '+00:00')\<close>\<close>

definition replace_Z :: "string \<Rightarrow> string" where
  "replace_Z s = concat (map (\<lambda>c. if c = CHR ''Z'' then ''+00:00'' else [c]) s)"

text \<open>
  \<^verbatim>\<open>iso_to_ms\<close>: the bare \<^verbatim>\<open>except\<close> turns every failure into 0, also the \<^verbatim>\<open>AttributeError\<close>
  of a value that is no string.
\<close>

definition iso_to_ms :: "env \<Rightarrow> json \<Rightarrow> int" where
  "iso_to_ms E iso_str =
     (case iso_str of
        JStr s \<Rightarrow> (case fromisoformat_ms E (replace_Z s) of Some ms \<Rightarrow> ms | None \<Rightarrow> 0)
      | _ \<Rightarrow> 0)"

text \<open>
  \<^verbatim>\<open>duration_min = max(1, (iso_to_ms(end) - iso_to_ms(start)) // 60000) if start and end else 1\<close>
\<close>

definition duration_min :: "env \<Rightarrow> json \<Rightarrow> json \<Rightarrow> int" where
  "duration_min E started_at ended_at =
     (if truthy started_at \<and> truthy ended_at
      then max 1 ((iso_to_ms E ended_at - iso_to_ms E started_at) div 60000)
      else 1)"

text \<open>\<^verbatim>\<open>str(structured.get(key, "N/A"))[:500]\<close> and \<^verbatim>\<open>int(structured.get(key, 0))\<close>\<close>

definition text_field :: "env \<Rightarrow> json \<Rightarrow> string \<Rightarrow> exn + string" where
  "text_field E structured key =
     bind_exn (dict_get structured key (JStr ''N/A'')) (\<lambda>v. Inr (take 500 (py_str E v)))"

definition score_field :: "env \<Rightarrow> json \<Rightarrow> string \<Rightarrow> exn + int" where
  "score_field E structured key = bind_exn (dict_get structured key (JInt 0)) (py_int E)"

text \<open>The dictionary display \<^verbatim>\<open>db_data = {...}\<close>, its entries evaluated in the order written.\<close>

definition build_db_data ::
  "env \<Rightarrow> string \<Rightarrow> session \<Rightarrow> int \<Rightarrow> json \<Rightarrow> json \<Rightarrow> exn + db_data"
where
  "build_db_data E sid sess dur structured tr =
     bind_exn (bind_exn (dict_get structured ''overall'' (JInt 0)) (py_float E)) (\<lambda>overall.
     bind_exn (text_field E structured ''rec'') (\<lambda>rec.
     bind_exn (slice_to 3000 tr) (\<lambda>tr'.
     bind_exn (score_field E structured ''s1'') (\<lambda>s1.
     bind_exn (score_field E structured ''s2'') (\<lambda>s2.
     bind_exn (score_field E structured ''s3'') (\<lambda>s3.
     bind_exn (score_field E structured ''s4'') (\<lambda>s4.
     bind_exn (score_field E structured ''s5'') (\<lambda>s5.
     bind_exn (text_field E structured ''str1'') (\<lambda>str1.
     bind_exn (text_field E structured ''str2'') (\<lambda>str2.
     bind_exn (text_field E structured ''str3'') (\<lambda>str3.
     bind_exn (text_field E structured ''imp1'') (\<lambda>imp1.
     bind_exn (text_field E structured ''imp2'') (\<lambda>imp2.
       Inr \<lparr>session_id = sid,
            user_email = sess_user_email sess,
            candidate_name = sess_candidate sess,
            role = sess_role_title sess,
            duration_minutes = dur,
            overall_score = overall,
            recommendation = rec,
            transcript = tr',
            score_1 = s1, score_2 = s2, score_3 = s3, score_4 = s4, score_5 = s5,
            strength_1 = str1, strength_2 = str2, strength_3 = str3,
            improvement_1 = imp1, improvement_2 = imp2\<rparr>)))))))))))))"

text \<open>
  The branch \<^verbatim>\<open>elif event == "end-of-call-report"\<close>, in two parts. The result is the returned
  dictionary, the dictionaries after the branch, and the list of the rows handed to
  \<^verbatim>\<open>insert(...).execute()\<close>. The branch changes the dictionaries only after the insert has
  returned, and nothing after that point can raise.

  The second part, from \<^verbatim>\<open>session = sessions[session_id]\<close> to the cleanup:
\<close>

definition commit_report ::
  "env \<Rightarrow> state \<Rightarrow> json \<Rightarrow> json \<Rightarrow> pykey \<Rightarrow> string \<Rightarrow> session
     \<Rightarrow> exn + response \<times> state \<times> db_data list"
where
  "commit_report E st message call_data ck sid sess =
     bind_exn (dict_get message ''transcript'' (JStr ''No transcript available'')) (\<lambda>tr.
     bind_exn (structured_scores message) (\<lambda>structured.
     bind_exn (dict_get call_data ''startedAt'' JNull) (\<lambda>started_at.
     bind_exn (dict_get call_data ''endedAt'' JNull) (\<lambda>ended_at.
     bind_exn (build_db_data E sid sess (duration_min E started_at ended_at) structured tr)
       (\<lambda>db.
          case insert_evaluation E db of
            Some e \<Rightarrow> Inr (Status_error (str_of_exn E e), st, [db])
          | None \<Rightarrow>
              Inr (Status_ok,
                   st\<lparr>sessions := AList.delete sid (sessions st),
                      call_to_session := pop (call_to_session st) ck\<rparr>,
                   [db]))))))"

text \<open>
  The first part, the resolution of the session, with the test
  \<^verbatim>\<open>if not session_id or session_id not in sessions\<close>:
\<close>

definition end_of_call_report ::
  "env \<Rightarrow> state \<Rightarrow> json \<Rightarrow> exn + response \<times> state \<times> db_data list"
where
  "end_of_call_report E st message =
     bind_exn (dict_get message ''call'' (JObj [])) (\<lambda>call_data.
     bind_exn (dict_get call_data ''id'' JNull) (\<lambda>call_id.
     bind_exn (key_of call_id) (\<lambda>ck.
       case resolve_session_id st ck of
         None \<Rightarrow> Inr (Status_error ''session not found'', st, [])
       | Some sid \<Rightarrow>
           if sid = [] then Inr (Status_error ''session not found'', st, [])
           else
             (case map_of (sessions st) sid of
                None \<Rightarrow> Inr (Status_error ''session not found'', st, [])
              | Some sess \<Rightarrow> commit_report E st message call_data ck sid sess))))"

text \<open>
  The body of the outer \<^verbatim>\<open>try\<close>. \<open>body\<close> is what \<^verbatim>\<open>await request.json()\<close> gives: the parsed
  payload, or the exception of a body that is no JSON. Every \<open>Inl\<close> below is raised before
  the first assignment to a dictionary, so the exceptional results carry no state.
\<close>

definition vapi_webhook_try ::
  "env \<Rightarrow> state \<Rightarrow> exn + json \<Rightarrow> exn + response \<times> state \<times> db_data list"
where
  "vapi_webhook_try E st body =
     bind_exn body (\<lambda>payload.
     bind_exn (dict_get payload ''message'' (JObj [])) (\<lambda>message.
     bind_exn (event_type message payload) (\<lambda>event.
       if event = JStr ''assistant-request''
       then bind_exn (assistant_request st message) (\<lambda>st'. Inr (Status_ok, st', []))
       else if event = JStr ''end-of-call-report''
       then end_of_call_report E st message
       else Inr (Status_ok, st, []))))"

text \<open>The webhook: the outer \<^verbatim>\<open>except Exception\<close> answers with the error dictionary.\<close>

definition vapi_webhook ::
  "env \<Rightarrow> state \<Rightarrow> exn + json \<Rightarrow> response \<times> state \<times> db_data list"
where
  "vapi_webhook E st body =
     (case vapi_webhook_try E st body of
        Inl e \<Rightarrow> (Status_error (str_of_exn E e), st, [])
      | Inr res \<Rightarrow> res)"

subsection \<open>An environment for the examples\<close>

text \<open>
  The examples below run the handlers in a concrete environment. Its timestamp parser reads
  the strings \<^verbatim>\<open>YYYY-MM-DDTHH:MM:SS+00:00\<close> (whole seconds, UTC), on which it computes what
  \<^verbatim>\<open>int(datetime.fromisoformat(s).timestamp() * 1000)\<close> computes, and rejects every other
  string; the examples use no other timestamp.
\<close>

definition digit_val :: "char \<Rightarrow> nat option" where
  "digit_val c =
     (if 48 \<le> (of_char c :: nat) \<and> (of_char c :: nat) \<le> 57 then Some (of_char c - 48) else None)"

fun read_nat :: "nat \<Rightarrow> string \<Rightarrow> nat option" where
  "read_nat acc [] = Some acc"
| "read_nat acc (c # cs) =
     (case digit_val c of None \<Rightarrow> None | Some d \<Rightarrow> read_nat (10 * acc + d) cs)"

definition is_leap :: "nat \<Rightarrow> bool" where
  "is_leap y = (y mod 4 = 0 \<and> (y mod 100 \<noteq> 0 \<or> y mod 400 = 0))"

definition days_in_month :: "nat \<Rightarrow> nat \<Rightarrow> nat" where
  "days_in_month y m =
     (if m = 2 then (if is_leap y then 29 else 28)
      else if m = 4 \<or> m = 6 \<or> m = 9 \<or> m = 11 then 30 else 31)"

text \<open>Days from 1970-01-01 to the given date of the proleptic Gregorian calendar.\<close>

definition days_from_civil :: "nat \<Rightarrow> nat \<Rightarrow> nat \<Rightarrow> int" where
  "days_from_civil y m d =
     (let y' = (if m \<le> 2 then int y - 1 else int y);
          era = y' div 400;
          yoe = y' - era * 400;
          mp = (if m > 2 then int m - 3 else int m + 9);
          doy = (153 * mp + 2) div 5 + int d - 1;
          doe = yoe * 365 + yoe div 4 - yoe div 100 + doy
      in era * 146097 + doe - 719468)"

definition civil_to_ms :: "nat \<Rightarrow> nat \<Rightarrow> nat \<Rightarrow> nat \<Rightarrow> nat \<Rightarrow> nat \<Rightarrow> int option" where
  "civil_to_ms y m d h mi sec =
     (if 1 \<le> y \<and> 1 \<le> m \<and> m \<le> 12 \<and> 1 \<le> d \<and> d \<le> days_in_month y m
         \<and> h < 24 \<and> mi < 60 \<and> sec < 60
      then Some ((days_from_civil y m d * 86400 + int (h * 3600 + mi * 60 + sec)) * 1000)
      else None)"

text \<open>The decimal number in the \<open>n\<close> characters of \<open>s\<close> from position \<open>k\<close>.\<close>

definition field :: "nat \<Rightarrow> nat \<Rightarrow> string \<Rightarrow> nat option" where
  "field k n s = read_nat 0 (take n (drop k s))"

definition utc_seconds_ms :: "string \<Rightarrow> int option" where
  "utc_seconds_ms s =
     (if length s = 25 \<and> map ((!) s) [4, 7, 10, 13, 16] = ''--T::'' \<and> drop 19 s = ''+00:00''
      then
        (case field 0 4 s of None \<Rightarrow> None | Some y \<Rightarrow>
        (case field 5 2 s of None \<Rightarrow> None | Some m \<Rightarrow>
        (case field 8 2 s of None \<Rightarrow> None | Some d \<Rightarrow>
        (case field 11 2 s of None \<Rightarrow> None | Some h \<Rightarrow>
        (case field 14 2 s of None \<Rightarrow> None | Some mi \<Rightarrow>
        (case field 17 2 s of None \<Rightarrow> None | Some sec \<Rightarrow>
           civil_to_ms y m d h mi sec))))))
      else None)"

definition test_env :: env where
  "test_env =
     \<lparr>getenv = map_of [(''ASSISTANT_ID_PROJECT_MANAGER'', ''asst-pm''),
                        (''ASSISTANT_ID_TEAM_LEAD'', ''asst-tl'')],
      VAPI_PUBLIC_KEY = ''pk-test'',
      float_of_str = (\<lambda>s. None),
      int_of_str = (\<lambda>s. None),
      str_of_float = (\<lambda>f. ''<float>''),
      repr_of = (\<lambda>v. ''<repr>''),
      str_of_exn = (\<lambda>e. case e of External msg \<Rightarrow> msg | _ \<Rightarrow> ''<exception>''),
      fromisoformat_ms = utc_seconds_ms,
      insert_evaluation = (\<lambda>d. None)\<rparr>"

text \<open>The same environment with a storage client whose insert raises.\<close>

definition failing_env :: env where
  "failing_env = test_env\<lparr>insert_evaluation := (\<lambda>d. Some (External ''connection refused''))\<rparr>"

text \<open>A session of the role \<^verbatim>\<open>team_lead\<close>, as \<^verbatim>\<open>start_session\<close> stores it.\<close>

definition example_session :: "string \<Rightarrow> string \<Rightarrow> session" where
  "example_session sid name =
     \<lparr>sess_session_id = sid,
      sess_role = ''team_lead'',
      sess_role_title = ''Team Lead'',
      sess_candidate = name,
      sess_criteria = [''Mentoring'', ''Technical Decisions'', ''Communication'',
        ''Conflict Resolution'', ''Process''],
      sess_assistant_id = ''asst-tl'',
      sess_user_email = ''a@b.c'',
      sess_started = ''2024-01-01T09:59:00''\<rparr>"

text \<open>An assistant request for the call \<open>cid\<close> and the assistant \<open>aid\<close>.\<close>

definition assistant_request_event :: "string \<Rightarrow> string \<Rightarrow> json" where
  "assistant_request_event cid aid =
     JObj [(''message'',
            JObj [(''type'', JStr ''assistant-request''),
                  (''call'', JObj [(''id'', JStr cid)]),
                  (''assistantId'', JStr aid)])]"

text \<open>
  An end-of-call report for the call \<open>cid\<close> with the given \<^verbatim>\<open>call\<close> and message entries: the
  message and the payload around it.
\<close>

definition report_message :: "string \<Rightarrow> (string \<times> json) list \<Rightarrow> (string \<times> json) list \<Rightarrow> json" where
  "report_message cid call_entries entries =
     JObj ([(''type'', JStr ''end-of-call-report''),
            (''call'', JObj ((''id'', JStr cid) # call_entries))] @ entries)"

definition report_event :: "string \<Rightarrow> (string \<times> json) list \<Rightarrow> (string \<times> json) list \<Rightarrow> json" where
  "report_event cid call_entries entries =
     JObj [(''message'', report_message cid call_entries entries)]"

text \<open>The dictionaries with one open session and no link.\<close>

definition one_session_state :: state where
  "one_session_state =
     \<lparr>sessions = [(''session_team_lead_1'', example_session ''session_team_lead_1'' ''Ann'')],
      call_to_session = [],
      assistant_to_session = [(KStr ''asst-tl'', ''session_team_lead_1'')]\<rparr>"

text \<open>
  Two open sessions, Ann's created before Bob's, and no link; and one open session beside a
  link left over from a session that is gone.
\<close>

definition two_sessions_state :: state where
  "two_sessions_state =
     \<lparr>sessions = [(''session_team_lead_1'', example_session ''session_team_lead_1'' ''Ann''),
                  (''session_team_lead_2'', example_session ''session_team_lead_2'' ''Bob'')],
      call_to_session = [],
      assistant_to_session = [(KStr ''asst-tl'', ''session_team_lead_2'')]\<rparr>"

definition stale_link_state :: state where
  "stale_link_state =
     \<lparr>sessions = [(''session_team_lead_2'', example_session ''session_team_lead_2'' ''Bob'')],
      call_to_session = [(KStr ''call-1'', ''session_team_lead_1'')],
      assistant_to_session = [(KStr ''asst-tl'', ''session_team_lead_2'')]\<rparr>"

text \<open>One open session with the call \<^verbatim>\<open>call-1\<close> linked to it.\<close>

definition linked_state :: state where
  "linked_state =
     \<lparr>sessions = [(''session_team_lead_1'', example_session ''session_team_lead_1'' ''Ann'')],
      call_to_session = [(KStr ''call-1'', ''session_team_lead_1'')],
      assistant_to_session = [(KStr ''asst-tl'', ''session_team_lead_1'')]\<rparr>"

text \<open>The row of a report without scores, transcript or timestamps.\<close>

definition default_row :: "string \<Rightarrow> string \<Rightarrow> db_data" where
  "default_row sid name =
     \<lparr>session_id = sid, user_email = ''a@b.c'', candidate_name = name, role = ''Team Lead'',
      duration_minutes = 1, overall_score = Finite 0, recommendation = ''N/A'',
      transcript = JStr ''No transcript available'',
      score_1 = 0, score_2 = 0, score_3 = 0, score_4 = 0, score_5 = 0,
      strength_1 = ''N/A'', strength_2 = ''N/A'', strength_3 = ''N/A'',
      improvement_1 = ''N/A'', improvement_2 = ''N/A''\<rparr>"

text \<open>A report with a recommendation of 600 characters and a transcript of 3500.\<close>

definition long_text_event :: json where
  "long_text_event =
     report_event ''call-1'' []
       [(''transcript'', JStr (replicate 3500 CHR ''t'')),
        (''analysis'',
         JObj [(''structuredData'', JObj [(''rec'', JStr (replicate 600 CHR ''r''))])])]"

text \<open>A report for the call \<^verbatim>\<open>call-1\<close> with the two timestamps.\<close>

definition timed_event :: "json \<Rightarrow> json \<Rightarrow> json" where
  "timed_event started_at ended_at =
     report_event ''call-1'' [(''startedAt'', started_at), (''endedAt'', ended_at)] []"

text \<open>
  Two requests for the role \<^verbatim>\<open>team_lead\<close>, and what two calls of \<^verbatim>\<open>start_session\<close> that read
  the same millisecond from the clock give: the two identifiers returned and the candidates
  of the sessions stored afterwards.
\<close>

definition ann_request :: SessionRequest where
  "ann_request =
     \<lparr>req_role = ''team_lead'', req_candidate_name = ''Ann'', req_user_email = ''a@b.c''\<rparr>"

definition bob_request :: SessionRequest where
  "bob_request =
     \<lparr>req_role = ''team_lead'', req_candidate_name = ''Bob'', req_user_email = ''a@b.c''\<rparr>"

definition same_millisecond_calls :: "HTTPException + string \<times> string \<times> string list" where
  "same_millisecond_calls =
     (case start_session test_env 1704103200000 ''2024-01-01T10:00:00.000100''
             initial_state ann_request of
        Inl e \<Rightarrow> Inl e
      | Inr (resp1, st1) \<Rightarrow>
          (case start_session test_env 1704103200000 ''2024-01-01T10:00:00.000900''
                  st1 bob_request of
             Inl e \<Rightarrow> Inl e
           | Inr (resp2, st2) \<Rightarrow>
               Inr (sessionId resp1, sessionId resp2, map (sess_candidate \<circ> snd) (sessions st2))))"

text \<open>
  The sessions stored after \<^verbatim>\<open>start_session\<close> has run for Bob while Ann's session is open,
  with the clock at the millisecond of Ann's identifier.
\<close>

definition overwritten_sessions :: "HTTPException + (string \<times> session) list" where
  "overwritten_sessions =
     map_sum id (sessions \<circ> snd)
       (start_session test_env 1 ''2024-01-01T09:59:00'' one_session_state bob_request)"

text \<open>The free-text columns of a row, each with the key it is read from.\<close>

definition text_fields :: "(string \<times> (db_data \<Rightarrow> string)) list" where
  "text_fields =
     [(''rec'', recommendation), (''str1'', strength_1), (''str2'', strength_2),
      (''str3'', strength_3), (''imp1'', improvement_1), (''imp2'', improvement_2)]"

text \<open>The scores in both shapes, and a report that carries them.\<close>

definition both_shapes :: "(string \<times> json) list" where
  "both_shapes =
     [(''artifact'',
       JObj [(''structuredOutputs'',
              JObj [(''x'', JObj [(''result'', JObj [(''overall'', JInt 8)])])])]),
      (''analysis'', JObj [(''structuredData'', JObj [(''overall'', JInt 2)])])]"

definition both_shapes_event :: json where
  "both_shapes_event = report_event ''call-1'' [] both_shapes"

section \<open>Properties\<close>

subsection \<open>Sequencing\<close>

lemma bind_exn_Inl [simp]: "bind_exn (Inl e) f = Inl e"
  by (simp add: bind_exn_def)

lemma bind_exn_Inr [simp]: "bind_exn (Inr x) f = f x"
  by (simp add: bind_exn_def)

lemma bind_exn_InrE:
  assumes "bind_exn m f = Inr y"
  obtains x where "m = Inr x" and "f x = Inr y"
  using assms by (cases m) simp_all

lemma dict_get_JObj [simp]:
  "dict_get (JObj kvs) key dflt = Inr (case map_of kvs key of Some v \<Rightarrow> v | None \<Rightarrow> dflt)"
  by (simp add: dict_get_def)

subsection \<open>What a run of the webhook that reaches the insert has done\<close>

lemma build_db_data_Inr:
  assumes "build_db_data E sid sess dur structured tr = Inr db"
  shows "\<exists>overall rec tr' s1 s2 s3 s4 s5 str1 str2 str3 imp1 imp2.
    bind_exn (dict_get structured ''overall'' (JInt 0)) (py_float E) = Inr overall \<and>
    text_field E structured ''rec'' = Inr rec \<and>
    slice_to 3000 tr = Inr tr' \<and>
    score_field E structured ''s1'' = Inr s1 \<and>
    score_field E structured ''s2'' = Inr s2 \<and>
    score_field E structured ''s3'' = Inr s3 \<and>
    score_field E structured ''s4'' = Inr s4 \<and>
    score_field E structured ''s5'' = Inr s5 \<and>
    text_field E structured ''str1'' = Inr str1 \<and>
    text_field E structured ''str2'' = Inr str2 \<and>
    text_field E structured ''str3'' = Inr str3 \<and>
    text_field E structured ''imp1'' = Inr imp1 \<and>
    text_field E structured ''imp2'' = Inr imp2 \<and>
    db = \<lparr>session_id = sid,
          user_email = sess_user_email sess,
          candidate_name = sess_candidate sess,
          role = sess_role_title sess,
          duration_minutes = dur,
          overall_score = overall,
          recommendation = rec,
          transcript = tr',
          score_1 = s1, score_2 = s2, score_3 = s3, score_4 = s4, score_5 = s5,
          strength_1 = str1, strength_2 = str2, strength_3 = str3,
          improvement_1 = imp1, improvement_2 = imp2\<rparr>"
  using assms unfolding build_db_data_def
  by (elim bind_exn_InrE) auto

lemma build_db_data_fields:
  assumes "build_db_data E sid sess dur structured tr = Inr db"
  shows "session_id db = sid"
    and "user_email db = sess_user_email sess"
    and "candidate_name db = sess_candidate sess"
    and "role db = sess_role_title sess"
    and "duration_minutes db = dur"
    and "bind_exn (dict_get structured ''overall'' (JInt 0)) (py_float E) = Inr (overall_score db)"
    and "text_field E structured ''rec'' = Inr (recommendation db)"
    and "slice_to 3000 tr = Inr (transcript db)"
    and "score_field E structured ''s1'' = Inr (score_1 db)"
    and "score_field E structured ''s2'' = Inr (score_2 db)"
    and "score_field E structured ''s3'' = Inr (score_3 db)"
    and "score_field E structured ''s4'' = Inr (score_4 db)"
    and "score_field E structured ''s5'' = Inr (score_5 db)"
    and "text_field E structured ''str1'' = Inr (strength_1 db)"
    and "text_field E structured ''str2'' = Inr (strength_2 db)"
    and "text_field E structured ''str3'' = Inr (strength_3 db)"
    and "text_field E structured ''imp1'' = Inr (improvement_1 db)"
    and "text_field E structured ''imp2'' = Inr (improvement_2 db)"
  using build_db_data_Inr [OF assms] by auto

lemma commit_report_row:
  assumes "commit_report E st message call_data ck sid sess = Inr (r, st', ws)"
  shows "\<exists>db tr structured started_at ended_at.
    dict_get message ''transcript'' (JStr ''No transcript available'') = Inr tr \<and>
    structured_scores message = Inr structured \<and>
    dict_get call_data ''startedAt'' JNull = Inr started_at \<and>
    dict_get call_data ''endedAt'' JNull = Inr ended_at \<and>
    build_db_data E sid sess (duration_min E started_at ended_at) structured tr = Inr db \<and>
    ws = [db] \<and>
    (r, st') =
      (case insert_evaluation E db of
         None \<Rightarrow> (Status_ok, st\<lparr>sessions := AList.delete sid (sessions st),
                                 call_to_session := pop (call_to_session st) ck\<rparr>)
       | Some e \<Rightarrow> (Status_error (str_of_exn E e), st))"
  using assms unfolding commit_report_def
  by (elim bind_exn_InrE) (auto split: option.split_asm)

lemma end_of_call_report_cases:
  assumes "end_of_call_report E st message = Inr (r, st', ws)"
  shows "(r = Status_error ''session not found'' \<and> st' = st \<and> ws = []) \<or>
    (\<exists>call_data call_id ck sid sess.
      dict_get message ''call'' (JObj []) = Inr call_data \<and>
      dict_get call_data ''id'' JNull = Inr call_id \<and>
      key_of call_id = Inr ck \<and>
      resolve_session_id st ck = Some sid \<and> sid \<noteq> [] \<and>
      map_of (sessions st) sid = Some sess \<and>
      commit_report E st message call_data ck sid sess = Inr (r, st', ws))"
  using assms unfolding end_of_call_report_def
  by (elim bind_exn_InrE) (auto split: option.split_asm if_split_asm)

lemma vapi_webhook_row:
  assumes "vapi_webhook E st body = (r, st', ws)" and "ws \<noteq> []"
  shows "\<exists>payload message.
    body = Inr payload \<and>
    dict_get payload ''message'' (JObj []) = Inr message \<and>
    event_type message payload = Inr (JStr ''end-of-call-report'') \<and>
    end_of_call_report E st message = Inr (r, st', ws)"
proof (cases "vapi_webhook_try E st body")
  case (Inl e)
  with assms show ?thesis by (simp add: vapi_webhook_def)
next
  case (Inr res)
  with assms have res: "vapi_webhook_try E st body = Inr (r, st', ws)"
    by (simp add: vapi_webhook_def)
  then show ?thesis using assms(2) unfolding vapi_webhook_try_def
    by (elim bind_exn_InrE) (auto split: if_split_asm elim!: bind_exn_InrE)
qed

text \<open>
  The three lemmas together: a run that hands a row to the insert is an end-of-call report
  whose session was resolved, and the row is the only one.
\<close>

lemma vapi_webhook_commit:
  assumes "vapi_webhook E st body = (r, st', ws)" and "ws \<noteq> []"
  obtains payload message call_data call_id ck sid sess db tr structured started_at ended_at
  where "body = Inr payload"
    and "dict_get payload ''message'' (JObj []) = Inr message"
    and "event_type message payload = Inr (JStr ''end-of-call-report'')"
    and "dict_get message ''call'' (JObj []) = Inr call_data"
    and "dict_get call_data ''id'' JNull = Inr call_id"
    and "key_of call_id = Inr ck"
    and "resolve_session_id st ck = Some sid"
    and "sid \<noteq> []"
    and "map_of (sessions st) sid = Some sess"
    and "dict_get message ''transcript'' (JStr ''No transcript available'') = Inr tr"
    and "structured_scores message = Inr structured"
    and "dict_get call_data ''startedAt'' JNull = Inr started_at"
    and "dict_get call_data ''endedAt'' JNull = Inr ended_at"
    and "build_db_data E sid sess (duration_min E started_at ended_at) structured tr = Inr db"
    and "ws = [db]"
    and "(r, st') =
      (case insert_evaluation E db of
         None \<Rightarrow> (Status_ok, st\<lparr>sessions := AList.delete sid (sessions st),
                                 call_to_session := pop (call_to_session st) ck\<rparr>)
       | Some e \<Rightarrow> (Status_error (str_of_exn E e), st))"
proof -
  from vapi_webhook_row [OF assms] obtain payload message where
    p: "body = Inr payload" "dict_get payload ''message'' (JObj []) = Inr message"
       "event_type message payload = Inr (JStr ''end-of-call-report'')"
    and e: "end_of_call_report E st message = Inr (r, st', ws)"
    by blast
  from end_of_call_report_cases [OF e] assms(2) obtain call_data call_id ck sid sess where
    c: "dict_get message ''call'' (JObj []) = Inr call_data"
       "dict_get call_data ''id'' JNull = Inr call_id" "key_of call_id = Inr ck"
       "resolve_session_id st ck = Some sid" "sid \<noteq> []" "map_of (sessions st) sid = Some sess"
    and f: "commit_report E st message call_data ck sid sess = Inr (r, st', ws)"
    by blast
  from commit_report_row [OF f] obtain db tr structured started_at ended_at where
    "dict_get message ''transcript'' (JStr ''No transcript available'') = Inr tr"
    "structured_scores message = Inr structured"
    "dict_get call_data ''startedAt'' JNull = Inr started_at"
    "dict_get call_data ''endedAt'' JNull = Inr ended_at"
    "build_db_data E sid sess (duration_min E started_at ended_at) structured tr = Inr db"
    "ws = [db]"
    "(r, st') =
      (case insert_evaluation E db of
         None \<Rightarrow> (Status_ok, st\<lparr>sessions := AList.delete sid (sessions st),
                                 call_to_session := pop (call_to_session st) ck\<rparr>)
       | Some e \<Rightarrow> (Status_error (str_of_exn E e), st))"
    by blast
  with p c show ?thesis by (rule that)
qed

subsection \<open>What the handlers do to the dictionaries\<close>

lemma start_session_Inr:
  assumes "start_session E timestamp started st req = Inr (resp, st')"
  shows "\<exists>rl aid.
    map_of (ROLES E) (req_role req) = Some rl \<and> assistant_id rl = Some aid \<and> aid \<noteq> [] \<and>
    CHR ''@'' \<in> set (req_user_email req) \<and>
    sessionId resp = ''session_'' @ req_role req @ ''_'' @ show_int timestamp \<and>
    assistantId resp = aid \<and>
    sessions st' =
      AList.update (sessionId resp)
        \<lparr>sess_session_id = sessionId resp, sess_role = req_role req,
         sess_role_title = title rl, sess_candidate = req_candidate_name req,
         sess_criteria = criteria rl, sess_assistant_id = aid,
         sess_user_email = req_user_email req, sess_started = started\<rparr>
        (sessions st) \<and>
    assistant_to_session st' = store (assistant_to_session st) (KStr aid) (sessionId resp) \<and>
    call_to_session st' = call_to_session st"
  using assms unfolding start_session_def
  by (auto simp: Let_def split: option.split_asm if_split_asm)

lemma start_session_keeps_sessions:
  assumes "start_session E timestamp started st req = Inr (resp, st')"
  shows "fst ` set (sessions st) \<subseteq> fst ` set (sessions st')"
proof -
  from start_session_Inr [OF assms] obtain v where
    "sessions st' = AList.update (sessionId resp) v (sessions st)"
    by blast
  then show ?thesis by (auto simp: AList.dom_update)
qed

text \<open>
  \<^verbatim>\<open>start_session\<close> leaves every session stored under another identifier than the one it
  makes as it is.
\<close>

lemma update_keeps_others:
  "(k', v') \<in> set al \<Longrightarrow> k' \<noteq> k \<Longrightarrow> (k', v') \<in> set (AList.update k v al)"
  by (induction al) auto

lemma start_session_keeps_other_sessions:
  assumes "start_session E timestamp started st req = Inr (resp, st')"
  shows "(\<forall>k v. (k, v) \<in> set (sessions st) \<and> k \<noteq> sessionId resp \<longrightarrow>
            (k, v) \<in> set (sessions st'))
       \<and> (\<forall>k. k \<noteq> sessionId resp \<longrightarrow> map_of (sessions st') k = map_of (sessions st) k)"
proof -
  from start_session_Inr [OF assms] obtain v where
    "sessions st' = AList.update (sessionId resp) v (sessions st)"
    by blast
  then show ?thesis
    by (simp add: update_keeps_others AList.update_conv')
qed

text \<open>A session made under a new identifier is the last entry of \<^verbatim>\<open>sessions\<close>.\<close>

lemma update_new_key:
  "k \<notin> fst ` set al \<Longrightarrow> AList.update k v al = al @ [(k, v)]"
  by (induction al) auto

lemma start_session_appends:
  assumes "start_session E timestamp started st req = Inr (resp, st')"
    and "sessionId resp \<notin> fst ` set (sessions st)"
  shows "fst (last (sessions st')) = sessionId resp"
proof -
  from start_session_Inr [OF assms(1)] obtain v where
    "sessions st' = AList.update (sessionId resp) v (sessions st)"
    by blast
  with assms(2) show ?thesis by (simp add: update_new_key)
qed

lemma update_values: "snd ` set (AList.update k v al) \<subseteq> insert v (snd ` set al)"
  by (induction al) auto

lemma delete_subset: "set (AList.delete k al) \<subseteq> set al"
  by (auto simp: AList.delete_eq)

lemma assistant_request_cases:
  assumes "assistant_request st message = Inr st1"
  shows "st1 = st
    \<or> (\<exists>ck sid. sid \<noteq> [] \<and> st1 = st\<lparr>call_to_session := store (call_to_session st) ck sid\<rparr>)"
  using assms unfolding assistant_request_def
  by (elim bind_exn_InrE) (auto split: option.split_asm if_split_asm elim!: bind_exn_InrE)

lemma vapi_webhook_state_cases:
  assumes "vapi_webhook E st body = (r, st', ws)"
  shows "st' = st
    \<or> (\<exists>ck sid. sid \<noteq> [] \<and> st' = st\<lparr>call_to_session := store (call_to_session st) ck sid\<rparr>)
    \<or> (\<exists>ck sid. st' = st\<lparr>sessions := AList.delete sid (sessions st),
                           call_to_session := pop (call_to_session st) ck\<rparr>)"
proof (cases "ws = []")
  case True
  show ?thesis
  proof (cases "vapi_webhook_try E st body")
    case (Inl e)
    with assms show ?thesis by (simp add: vapi_webhook_def)
  next
    case (Inr res)
    with assms have t: "vapi_webhook_try E st body = Inr (r, st', ws)"
      by (simp add: vapi_webhook_def)
    then obtain payload message event where
      c: "(if event = JStr ''assistant-request''
           then bind_exn (assistant_request st message) (\<lambda>st'. Inr (Status_ok, st', []))
           else if event = JStr ''end-of-call-report''
           then end_of_call_report E st message
           else Inr (Status_ok, st, [])) = Inr (r, st', ws)"
      unfolding vapi_webhook_try_def by (elim bind_exn_InrE)
    show ?thesis
    proof (cases "event = JStr ''assistant-request''")
      case a: True
      with c obtain st1 where "assistant_request st message = Inr st1" and "st' = st1"
        by (auto elim!: bind_exn_InrE)
      with assistant_request_cases [of st message st1] show ?thesis by blast
    next
      case na: False
      show ?thesis
      proof (cases "event = JStr ''end-of-call-report''")
        case True
        with c na have "end_of_call_report E st message = Inr (r, st', ws)" by simp
        from end_of_call_report_cases [OF this] True \<open>ws = []\<close> show ?thesis
          by (auto dest: commit_report_row)
      next
        case False
        with c na show ?thesis by simp
      qed
    qed
  qed
next
  case False
  with assms obtain sid db ck where
    res: "(r, st') =
      (case insert_evaluation E db of
         None \<Rightarrow> (Status_ok, st\<lparr>sessions := AList.delete sid (sessions st),
                                 call_to_session := pop (call_to_session st) ck\<rparr>)
       | Some e \<Rightarrow> (Status_error (str_of_exn E e), st))"
    by (rule vapi_webhook_commit)
  then show ?thesis by (cases "insert_evaluation E db") auto
qed

lemma vapi_webhook_sessions_kept:
  assumes "vapi_webhook E st body = (r, st', ws)"
  shows "sessions st' = sessions st \<or> (\<exists>db. ws = [db] \<and> insert_evaluation E db = None \<and> r = Status_ok
           \<and> sessions st' = AList.delete (session_id db) (sessions st))"
proof (cases "ws = []")
  case True
  show ?thesis
  proof (cases "vapi_webhook_try E st body")
    case (Inl e)
    with assms show ?thesis by (simp add: vapi_webhook_def)
  next
    case (Inr res)
    with assms have t: "vapi_webhook_try E st body = Inr (r, st', ws)"
      by (simp add: vapi_webhook_def)
    then obtain payload message event where
      "event_type message payload = Inr event"
      and c: "(if event = JStr ''assistant-request''
           then bind_exn (assistant_request st message) (\<lambda>st'. Inr (Status_ok, st', []))
           else if event = JStr ''end-of-call-report''
           then end_of_call_report E st message
           else Inr (Status_ok, st, [])) = Inr (r, st', ws)"
      unfolding vapi_webhook_try_def by (elim bind_exn_InrE)
    show ?thesis
    proof (cases "event = JStr ''assistant-request''")
      case a: True
      with c obtain st1 where "assistant_request st message = Inr st1" and "st' = st1"
        by (auto elim!: bind_exn_InrE)
      then have "sessions st' = sessions st"
        unfolding assistant_request_def
        by (elim bind_exn_InrE) (auto split: option.split_asm if_split_asm elim!: bind_exn_InrE)
      then show ?thesis ..
    next
      case na: False
      show ?thesis
      proof (cases "event = JStr ''end-of-call-report''")
        case True
        with c na have "end_of_call_report E st message = Inr (r, st', ws)" by simp
        from end_of_call_report_cases [OF this] True \<open>ws = []\<close> show ?thesis
          by (auto dest: commit_report_row)
      next
        case False
        with c na show ?thesis by simp
      qed
    qed
  qed
next
  case False
  with assms obtain sid sess db tr structured dur ck where
    b: "build_db_data E sid sess dur structured tr = Inr db"
    and ws: "ws = [db]"
    and res: "(r, st') =
      (case insert_evaluation E db of
         None \<Rightarrow> (Status_ok, st\<lparr>sessions := AList.delete sid (sessions st),
                                 call_to_session := pop (call_to_session st) ck\<rparr>)
       | Some e \<Rightarrow> (Status_error (str_of_exn E e), st))"
    by (rule vapi_webhook_commit)
  show ?thesis
  proof (cases "insert_evaluation E db")
    case None
    with res ws build_db_data_fields(1) [OF b] show ?thesis by auto
  next
    case (Some e)
    with res show ?thesis by simp
  qed
qed

text \<open>\<open>state_ok\<close> holds initially and every handler keeps it.\<close>

lemma state_ok_initial: "state_ok initial_state"
  by (simp add: state_ok_def initial_state_def)

lemma state_ok_start_session:
  assumes "state_ok st" and "start_session E timestamp started st req = Inr (resp, st')"
  shows "state_ok st'"
proof -
  from start_session_Inr [OF assms(2)] obtain aid v where
    sid: "sessionId resp = ''session_'' @ req_role req @ ''_'' @ show_int timestamp"
    and s: "sessions st' = AList.update (sessionId resp) v (sessions st)"
    and a: "assistant_to_session st' = store (assistant_to_session st) (KStr aid) (sessionId resp)"
    and c: "call_to_session st' = call_to_session st"
    by blast
  from sid have "sessionId resp \<noteq> []" by simp
  with assms(1) s a c show ?thesis
    by (auto simp: state_ok_def store_def AList.distinct_update AList.dom_update)
qed

lemma state_ok_vapi_webhook:
  assumes "state_ok st" and "vapi_webhook E st body = (r, st', ws)"
  shows "state_ok st'"
  using vapi_webhook_state_cases [OF assms(2)]
proof (elim disjE exE conjE)
  assume "st' = st"
  with assms(1) show ?thesis by simp
next
  fix ck sid
  assume "sid \<noteq> []" and "st' = st\<lparr>call_to_session := store (call_to_session st) ck sid\<rparr>"
  with assms(1) update_values [of ck sid "call_to_session st"] show ?thesis
    by (auto simp: state_ok_def store_def AList.distinct_update)
next
  fix ck sid
  assume "st' = st\<lparr>sessions := AList.delete sid (sessions st),
                   call_to_session := pop (call_to_session st) ck\<rparr>"
  with assms(1) delete_subset [of sid "sessions st"] delete_subset [of ck "call_to_session st"]
  show ?thesis
    by (auto simp: state_ok_def pop_def AList.distinct_delete)
qed

subsection \<open>Running the handlers on the examples\<close>

lemmas handler_defs =
  vapi_webhook_def vapi_webhook_try_def event_type_def end_of_call_report_def
  commit_report_def resolve_session_id_def lookup_def pop_def store_def structured_scores_def
  dict_values_def index0_def build_db_data_def text_field_def score_field_def duration_min_def
  iso_to_ms_def float_of_int_def

lemmas example_defs =
  report_event_def report_message_def one_session_state_def two_sessions_state_def
  stale_link_state_def linked_state_def initial_state_def example_session_def default_row_def
  test_env_def failing_env_def

lemma report_event_parts:
  "dict_get (report_event cid call_entries entries) ''message'' (JObj [])
     = Inr (report_message cid call_entries entries)"
  "event_type (report_message cid call_entries entries) (report_event cid call_entries entries)
     = Inr (JStr ''end-of-call-report'')"
  "dict_get (report_message cid call_entries entries) ''call'' (JObj [])
     = Inr (JObj ((''id'', JStr cid) # call_entries))"
  "dict_get (JObj ((''id'', JStr cid) # call_entries)) ''id'' JNull = Inr (JStr cid)"
  by (simp_all add: report_event_def report_message_def event_type_def)

text \<open>The dictionaries of the examples arise from the empty ones by runs of the handlers.\<close>

lemma example_states_reached:
  "map_sum id snd (start_session test_env 1 ''2024-01-01T09:59:00'' initial_state ann_request)
     = Inr one_session_state"
  "map_sum id snd (start_session test_env 2 ''2024-01-01T09:59:00'' one_session_state bob_request)
     = Inr two_sessions_state"
  "vapi_webhook test_env one_session_state (Inr (assistant_request_event ''call-1'' ''asst-tl''))
     = (Status_ok, linked_state, [])"
  "vapi_webhook test_env linked_state (Inr (report_event ''call-7'' [] []))
     = (Status_ok, linked_state\<lparr>sessions := []\<rparr>, [default_row ''session_team_lead_1'' ''Ann''])"
  "map_sum id snd (start_session test_env 2 ''2024-01-01T09:59:00''
       (linked_state\<lparr>sessions := []\<rparr>) bob_request)
     = Inr stale_link_state"
  by (simp_all add: start_session_def ROLES_def Let_def show_int_def show_nat.simps digit_char_def
        ann_request_def bob_request_def assistant_request_event_def assistant_request_def
        handler_defs example_defs AList.delete_eq)

lemma both_shapes_run:
  "vapi_webhook test_env one_session_state (Inr both_shapes_event) =
     (Status_ok,
      one_session_state\<lparr>sessions := []\<rparr>,
      [\<lparr>session_id = ''session_team_lead_1'', user_email = ''a@b.c'',
        candidate_name = ''Ann'', role = ''Team Lead'', duration_minutes = 1,
        overall_score = Finite 8, recommendation = ''N/A'',
        transcript = JStr ''No transcript available'',
        score_1 = 0, score_2 = 0, score_3 = 0, score_4 = 0, score_5 = 0,
        strength_1 = ''N/A'', strength_2 = ''N/A'', strength_3 = ''N/A'',
        improvement_1 = ''N/A'', improvement_2 = ''N/A''\<rparr>])"
  by (simp add: handler_defs example_defs both_shapes_event_def both_shapes_def AList.delete_eq)

subsection \<open>Extraction of the structured scores\<close>

text \<open>
  Claim C1. With \<open>outputs\<close> the value of \<^verbatim>\<open>artifact.get("structuredOutputs", {})\<close>: when
  \<open>outputs\<close> is a non-empty dictionary the scores are the \<^verbatim>\<open>result\<close> entry of its first value
  (the empty dictionary when that value has none); when \<open>outputs\<close> is empty the scores are
  \<^verbatim>\<open>analysis.structuredData\<close>; when that is missing too the scores are the empty dictionary.
  A report that carries \<^verbatim>\<open>overall: 8\<close> in the first shape and \<^verbatim>\<open>overall: 2\<close> in the second
  is committed with the overall score 8.0, whatever the environment and the dictionaries.
\<close>

theorem structured_scores_preference:
  assumes "dict_get message ''artifact'' (JObj []) = Inr artifact"
    and "dict_get artifact ''structuredOutputs'' (JObj []) = Inr outputs"
  shows "(\<forall>k first_output rest. outputs = JObj ((k, first_output) # rest) \<longrightarrow>
            structured_scores message = dict_get first_output ''result'' (JObj []))
       \<and> (\<forall>analysis.
            \<not> truthy outputs \<and> dict_get message ''analysis'' (JObj []) = Inr analysis \<longrightarrow>
            structured_scores message = dict_get analysis ''structuredData'' (JObj []))
       \<and> (\<not> truthy outputs \<and> dict_get message ''analysis'' (JObj []) = Inr (JObj []) \<longrightarrow>
            structured_scores message = Inr (JObj []))
       \<and> (\<forall>E st payload x r st' ws db.
            dict_get payload ''message'' (JObj []) = Inr message
            \<and> outputs = JObj [(x, JObj [(''result'', JObj [(''overall'', JInt 8)])])]
            \<and> dict_get message ''analysis'' (JObj [])
                = Inr (JObj [(''structuredData'', JObj [(''overall'', JInt 2)])])
            \<and> vapi_webhook E st (Inr payload) = (r, st', ws) \<and> db \<in> set ws \<longrightarrow>
            overall_score db = Finite 8)"
proof (intro conjI allI impI)
  fix k first_output rest
  assume "outputs = JObj ((k, first_output) # rest)"
  with assms show "structured_scores message = dict_get first_output ''result'' (JObj [])"
    by (simp add: structured_scores_def dict_values_def index0_def)
next
  fix analysis
  assume "\<not> truthy outputs \<and> dict_get message ''analysis'' (JObj []) = Inr analysis"
  with assms show "structured_scores message = dict_get analysis ''structuredData'' (JObj [])"
    by (simp add: structured_scores_def)
next
  assume "\<not> truthy outputs \<and> dict_get message ''analysis'' (JObj []) = Inr (JObj [])"
  with assms show "structured_scores message = Inr (JObj [])"
    by (simp add: structured_scores_def)
next
  fix E st payload x r st' ws db
  assume a: "dict_get payload ''message'' (JObj []) = Inr message
            \<and> outputs = JObj [(x, JObj [(''result'', JObj [(''overall'', JInt 8)])])]
            \<and> dict_get message ''analysis'' (JObj [])
                = Inr (JObj [(''structuredData'', JObj [(''overall'', JInt 2)])])
            \<and> vapi_webhook E st (Inr payload) = (r, st', ws) \<and> db \<in> set ws"
  then have run: "vapi_webhook E st (Inr payload) = (r, st', ws)" and "ws \<noteq> []" by auto
  from a assms have s: "structured_scores message = Inr (JObj [(''overall'', JInt 8)])"
    by (simp add: structured_scores_def dict_values_def index0_def)
  from run \<open>ws \<noteq> []\<close> obtain payload' message' sid sess db' tr structured dur where
    "Inr payload = (Inr payload' :: exn + json)"
    "dict_get payload' ''message'' (JObj []) = Inr message'"
    "structured_scores message' = Inr structured"
    "build_db_data E sid sess dur structured tr = Inr db'"
    "ws = [db']"
    by (rule vapi_webhook_commit)
  with a s have "build_db_data E sid sess dur (JObj [(''overall'', JInt 8)]) tr = Inr db"
    by auto
  from build_db_data_fields(6) [OF this] show "overall_score db = Finite 8"
    by (simp add: float_of_int_def)
qed

theorem structured_scores_preference_witness:
  "structured_scores (report_message ''call-1'' [] both_shapes) = Inr (JObj [(''overall'', JInt 8)])
   \<and> map overall_score (snd (snd (vapi_webhook test_env one_session_state (Inr both_shapes_event))))
       = [Finite 8]"
proof -
  let ?message = "report_message ''call-1'' [] both_shapes"
  let ?first = "JObj [(''result'', JObj [(''overall'', JInt 8)])]"
  let ?outputs = "JObj [(''x'', ?first)]"
  let ?artifact = "JObj [(''structuredOutputs'', ?outputs)]"
  have h1: "dict_get ?message ''artifact'' (JObj []) = Inr ?artifact"
    by (simp add: report_message_def both_shapes_def)
  have h2: "dict_get ?artifact ''structuredOutputs'' (JObj []) = Inr ?outputs"
    by simp
  note T = structured_scores_preference [OF h1 h2]
  from T have "structured_scores ?message = dict_get ?first ''result'' (JObj [])"
    by blast
  then have first: "structured_scores ?message = Inr (JObj [(''overall'', JInt 8)])"
    by simp
  obtain r st' ws where run: "vapi_webhook test_env one_session_state (Inr both_shapes_event) = (r, st', ws)"
    and ws: "length ws = 1"
    using both_shapes_run by simp
  have "\<forall>db \<in> set ws. overall_score db = Finite 8"
  proof
    fix db assume "db \<in> set ws"
    moreover have "dict_get both_shapes_event ''message'' (JObj []) = Inr ?message"
      by (simp add: both_shapes_event_def report_event_def)
    moreover have "dict_get ?message ''analysis'' (JObj [])
        = Inr (JObj [(''structuredData'', JObj [(''overall'', JInt 2)])])"
      by (simp add: report_message_def both_shapes_def)
    ultimately show "overall_score db = Finite 8"
      using T run by blast
  qed
  with ws have "map overall_score ws = [Finite 8]"
    by (cases ws) auto
  with first run show ?thesis by simp
qed

subsection \<open>Resolution of the session\<close>


lemma end_of_call_report_not_found:
  assumes "dict_get message ''call'' (JObj []) = Inr call_data"
    and "dict_get call_data ''id'' JNull = Inr call_id"
    and "key_of call_id = Inr ck"
    and "resolve_session_id st ck = None
         \<or> resolve_session_id st ck = Some [] 
         \<or> (\<exists>sid. resolve_session_id st ck = Some sid \<and> map_of (sessions st) sid = None)"
  shows "end_of_call_report E st message = Inr (Status_error ''session not found'', st, [])"
  using assms by (auto simp add: end_of_call_report_def)

lemma vapi_webhook_end_of_call:
  assumes "dict_get payload ''message'' (JObj []) = Inr message"
    and "event_type message payload = Inr (JStr ''end-of-call-report'')"
  shows "vapi_webhook E st (Inr payload) =
    (case end_of_call_report E st message of
       Inl e \<Rightarrow> (Status_error (str_of_exn E e), st, [])
     | Inr res \<Rightarrow> res)"
  using assms by (simp add: vapi_webhook_def vapi_webhook_try_def)





text \<open>
  Claim C4. An end-of-call report whose call identifier has no entry in \<^verbatim>\<open>call_to_session\<close>,
  received while \<^verbatim>\<open>sessions\<close> is empty, is answered with the error \<^verbatim>\<open>session not found\<close>;
  nothing is handed to the insert and the three dictionaries are as before.
\<close>

theorem unknown_call_without_sessions:
  assumes "dict_get payload ''message'' (JObj []) = Inr message"
    and "event_type message payload = Inr (JStr ''end-of-call-report'')"
    and "dict_get message ''call'' (JObj []) = Inr call_data"
    and "dict_get call_data ''id'' JNull = Inr call_id"
    and "key_of call_id = Inr ck"
    and "lookup (call_to_session st) ck = None"
    and "sessions st = []"
  shows "vapi_webhook E st (Inr payload) = (Status_error ''session not found'', st, [])"
proof -
  from assms(6,7) have "resolve_session_id st ck = None"
    by (simp add: resolve_session_id_def)
  then have "end_of_call_report E st message = Inr (Status_error ''session not found'', st, [])"
    using assms(3-5) by (intro end_of_call_report_not_found) auto
  with vapi_webhook_end_of_call [OF assms(1,2)] show ?thesis by simp
qed

theorem unknown_call_without_sessions_witness:
  "lookup (call_to_session initial_state) (KStr ''call-9'') = None
   \<and> sessions initial_state = []
   \<and> vapi_webhook test_env initial_state (Inr (report_event ''call-9'' [] []))
       = (Status_error ''session not found'', initial_state, [])"
proof -
  have unknown: "lookup (call_to_session initial_state) (KStr ''call-9'') = None"
    by (simp add: lookup_def initial_state_def)
  have empty: "sessions initial_state = []"
    by (simp add: initial_state_def)
  have k: "key_of (JStr ''call-9'') = Inr (KStr ''call-9'')"
    by simp
  from unknown_call_without_sessions [where E = test_env, OF report_event_parts k unknown empty]
    unknown empty
  show ?thesis by blast
qed



subsection \<open>The outcome of the insert\<close>

lemma failing_run:
  "vapi_webhook failing_env linked_state (Inr (report_event ''call-1'' [] [])) =
     (Status_error ''connection refused'', linked_state, [default_row ''session_team_lead_1'' ''Ann''])"
  by (simp add: handler_defs example_defs)

lemma linked_run:
  "vapi_webhook test_env linked_state (Inr (report_event ''call-1'' [] [])) =
     (Status_ok, linked_state\<lparr>sessions := [], call_to_session := []\<rparr>,
      [default_row ''session_team_lead_1'' ''Ann''])"
  by (simp add: handler_defs example_defs AList.delete_eq)

text \<open>
  Claim C5. When the insert of an end-of-call report raises, the webhook answers with the
  error dictionary that carries the message of the exception, and the three dictionaries
  are as before: the resolved session is still a key of \<^verbatim>\<open>sessions\<close> and no link is removed.
\<close>

theorem commit_failure_preserves_state:
  assumes "vapi_webhook E st body = (r, st', ws)"
    and "db \<in> set ws"
    and "insert_evaluation E db = Some e"
  shows "r = Status_error (str_of_exn E e) \<and> st' = st \<and> ws = [db]
    \<and> map_of (sessions st') (session_id db) \<noteq> None
    \<and> call_to_session st' = call_to_session st"
proof -
  from assms(2) have "ws \<noteq> []" by auto
  with assms(1) obtain sid sess db' tr structured dur ck where
    m: "map_of (sessions st) sid = Some sess"
    and b: "build_db_data E sid sess dur structured tr = Inr db'"
    and ws: "ws = [db']"
    and res: "(r, st') =
      (case insert_evaluation E db' of
         None \<Rightarrow> (Status_ok, st\<lparr>sessions := AList.delete sid (sessions st),
                                 call_to_session := pop (call_to_session st) ck\<rparr>)
       | Some e \<Rightarrow> (Status_error (str_of_exn E e), st))"
    by (rule vapi_webhook_commit)
  from ws assms(2) have "db' = db" by simp
  with res assms(3) have "r = Status_error (str_of_exn E e)" and "st' = st" by simp_all
  moreover from build_db_data_fields(1) [OF b] \<open>db' = db\<close> m
  have "map_of (sessions st) (session_id db) \<noteq> None" by simp
  ultimately show ?thesis using ws \<open>db' = db\<close> by simp
qed

theorem commit_failure_preserves_state_witness:
  "insert_evaluation failing_env (default_row ''session_team_lead_1'' ''Ann'')
     = Some (External ''connection refused'')
   \<and> vapi_webhook failing_env linked_state (Inr (report_event ''call-1'' [] []))
     = (Status_error ''connection refused'', linked_state,
        [default_row ''session_team_lead_1'' ''Ann''])
   \<and> map_of (sessions linked_state) ''session_team_lead_1'' \<noteq> None"
proof -
  let ?db = "default_row ''session_team_lead_1'' ''Ann''"
  have fails: "insert_evaluation failing_env ?db = Some (External ''connection refused'')"
    by (simp add: failing_env_def)
  have row: "?db \<in> set [?db]" by simp
  from commit_failure_preserves_state [OF failing_run row fails]
  have "map_of (sessions linked_state) (session_id ?db) \<noteq> None" by blast
  then have "map_of (sessions linked_state) ''session_team_lead_1'' \<noteq> None"
    by (simp add: default_row_def)
  with fails failing_run show ?thesis by blast
qed

text \<open>
  Claim C6, as stated, fails in its last part: the commit of a report is not the only
  point at which a session is destroyed. \<^verbatim>\<open>start_session\<close> assigns to
  \<^verbatim>\<open>sessions[session_id]\<close> whether or not the key is there, so a call for the same role that
  reads the millisecond of an open session's identifier replaces that session: Ann's open
  session is gone and Bob's stands under her identifier, with no report committed.
\<close>

theorem start_session_overwrites_open_session:
  "sessions one_session_state
     = [(''session_team_lead_1'', example_session ''session_team_lead_1'' ''Ann'')]
   \<and> overwritten_sessions
     = Inr [(''session_team_lead_1'', example_session ''session_team_lead_1'' ''Bob'')]"
  by (simp add: overwritten_sessions_def start_session_def ROLES_def Let_def show_int_def
        show_nat.simps digit_char_def bob_request_def example_defs)

text \<open>
  Claim C6, amended. When the insert of an end-of-call report returns, the webhook answers
  \<^verbatim>\<open>ok\<close>, the resolved session is removed from \<^verbatim>\<open>sessions\<close> and the call identifier of the
  event from \<^verbatim>\<open>call_to_session\<close>, so that looking either up finds nothing. A run of the
  webhook changes \<^verbatim>\<open>sessions\<close> at this point only, and then by removing that one session.
  \<^verbatim>\<open>start_session\<close> removes no key and leaves every session stored under another identifier
  than the one it makes as it is; only a session stored under the identifier it makes
  (same role, same millisecond) is replaced.
\<close>

theorem commit_success_retires_session:
  assumes "vapi_webhook E st (Inr payload) = (r, st', ws)"
    and "db \<in> set ws"
    and "insert_evaluation E db = None"
    and "dict_get payload ''message'' (JObj []) = Inr message"
    and "dict_get message ''call'' (JObj []) = Inr call_data"
    and "dict_get call_data ''id'' JNull = Inr call_id"
    and "key_of call_id = Inr ck"
  shows "r = Status_ok \<and> ws = [db]
    \<and> map_of (sessions st) (session_id db) \<noteq> None
    \<and> st' = st\<lparr>sessions := AList.delete (session_id db) (sessions st),
               call_to_session := pop (call_to_session st) ck\<rparr>
    \<and> map_of (sessions st') (session_id db) = None
    \<and> lookup (call_to_session st') ck = None
    \<and> (\<forall>E0 st0 body0.
          sessions (fst (snd (vapi_webhook E0 st0 body0))) = sessions st0
          \<or> (\<exists>db0. snd (snd (vapi_webhook E0 st0 body0)) = [db0]
                \<and> insert_evaluation E0 db0 = None
                \<and> sessions (fst (snd (vapi_webhook E0 st0 body0)))
                    = AList.delete (session_id db0) (sessions st0)))
    \<and> (\<forall>E0 t0 s0 st0 req0 resp0 st1.
          start_session E0 t0 s0 st0 req0 = Inr (resp0, st1) \<longrightarrow>
          fst ` set (sessions st0) \<subseteq> fst ` set (sessions st1)
          \<and> (\<forall>k v. (k, v) \<in> set (sessions st0) \<and> k \<noteq> sessionId resp0 \<longrightarrow>
                (k, v) \<in> set (sessions st1))
          \<and> (\<forall>k. k \<noteq> sessionId resp0 \<longrightarrow>
                map_of (sessions st1) k = map_of (sessions st0) k))"
proof -
  from assms(2) have "ws \<noteq> []" by auto
  with assms(1) obtain payload' message' call_data' call_id' ck' sid sess db' tr structured dur where
    p: "Inr payload = (Inr payload' :: exn + json)"
       "dict_get payload' ''message'' (JObj []) = Inr message'"
       "dict_get message' ''call'' (JObj []) = Inr call_data'"
       "dict_get call_data' ''id'' JNull = Inr call_id'"
       "key_of call_id' = Inr ck'"
    and m: "map_of (sessions st) sid = Some sess"
    and b: "build_db_data E sid sess dur structured tr = Inr db'"
    and ws: "ws = [db']"
    and res: "(r, st') =
      (case insert_evaluation E db' of
         None \<Rightarrow> (Status_ok, st\<lparr>sessions := AList.delete sid (sessions st),
                                 call_to_session := pop (call_to_session st) ck'\<rparr>)
       | Some e \<Rightarrow> (Status_error (str_of_exn E e), st))"
    by (rule vapi_webhook_commit)
  from p assms(4-7) have ck: "ck' = ck" by simp
  from ws assms(2) have db: "db' = db" by simp
  from build_db_data_fields(1) [OF b] db have sid: "sid = session_id db" by simp
  from res db assms(3) ck sid have r: "r = Status_ok"
    and st': "st' = st\<lparr>sessions := AList.delete (session_id db) (sessions st),
                        call_to_session := pop (call_to_session st) ck\<rparr>"
    by simp_all
  from st' have gone: "map_of (sessions st') (session_id db) = None"
    by (simp add: AList.delete_conv')
  from st' have unlinked: "lookup (call_to_session st') ck = None"
    by (simp add: lookup_def pop_def AList.delete_conv')
  have only: "\<forall>E0 st0 body0.
          sessions (fst (snd (vapi_webhook E0 st0 body0))) = sessions st0
          \<or> (\<exists>db0. snd (snd (vapi_webhook E0 st0 body0)) = [db0]
                \<and> insert_evaluation E0 db0 = None
                \<and> sessions (fst (snd (vapi_webhook E0 st0 body0)))
                    = AList.delete (session_id db0) (sessions st0))"
  proof (intro allI)
    fix E0 st0 body0
    show "sessions (fst (snd (vapi_webhook E0 st0 body0))) = sessions st0
          \<or> (\<exists>db0. snd (snd (vapi_webhook E0 st0 body0)) = [db0]
                \<and> insert_evaluation E0 db0 = None
                \<and> sessions (fst (snd (vapi_webhook E0 st0 body0)))
                    = AList.delete (session_id db0) (sessions st0))"
      using vapi_webhook_sessions_kept [of E0 st0 body0]
      by (cases "vapi_webhook E0 st0 body0") auto
  qed
  have start: "\<forall>E0 t0 s0 st0 req0 resp0 st1.
          start_session E0 t0 s0 st0 req0 = Inr (resp0, st1) \<longrightarrow>
          fst ` set (sessions st0) \<subseteq> fst ` set (sessions st1)
          \<and> (\<forall>k v. (k, v) \<in> set (sessions st0) \<and> k \<noteq> sessionId resp0 \<longrightarrow>
                (k, v) \<in> set (sessions st1))
          \<and> (\<forall>k. k \<noteq> sessionId resp0 \<longrightarrow>
                map_of (sessions st1) k = map_of (sessions st0) k)"
  proof (intro allI impI)
    fix E0 t0 s0 st0 req0 resp0 st1
    assume run: "start_session E0 t0 s0 st0 req0 = Inr (resp0, st1)"
    from start_session_keeps_sessions [OF run] start_session_keeps_other_sessions [OF run]
    show "fst ` set (sessions st0) \<subseteq> fst ` set (sessions st1)
          \<and> (\<forall>k v. (k, v) \<in> set (sessions st0) \<and> k \<noteq> sessionId resp0 \<longrightarrow>
                (k, v) \<in> set (sessions st1))
          \<and> (\<forall>k. k \<noteq> sessionId resp0 \<longrightarrow>
                map_of (sessions st1) k = map_of (sessions st0) k)"
      by (rule conjI)
  qed
  from ws db have row: "ws = [db]" by simp
  from m sid have present: "map_of (sessions st) (session_id db) \<noteq> None" by simp
  show ?thesis
    by (intro conjI) (fact r row present st' gone unlinked only start)+
qed

theorem commit_success_retires_session_witness:
  "insert_evaluation test_env (default_row ''session_team_lead_1'' ''Ann'') = None
   \<and> fst (vapi_webhook test_env linked_state (Inr (report_event ''call-1'' [] []))) = Status_ok
   \<and> map_of (sessions (fst (snd (vapi_webhook test_env linked_state
        (Inr (report_event ''call-1'' [] [])))))) ''session_team_lead_1'' = None
   \<and> lookup (call_to_session (fst (snd (vapi_webhook test_env linked_state
        (Inr (report_event ''call-1'' [] [])))))) (KStr ''call-1'') = None
   \<and> map_sum id snd
        (start_session test_env 2 ''2024-01-01T09:59:00'' one_session_state bob_request)
      = Inr two_sessions_state
   \<and> (''session_team_lead_1'', example_session ''session_team_lead_1'' ''Ann'')
        \<in> set (sessions two_sessions_state)"
proof -
  let ?db = "default_row ''session_team_lead_1'' ''Ann''"
  let ?st' = "linked_state\<lparr>sessions := [], call_to_session := []\<rparr>"
  let ?ann = "(''session_team_lead_1'', example_session ''session_team_lead_1'' ''Ann'')"
  have succeeds: "insert_evaluation test_env ?db = None"
    by (simp add: test_env_def)
  have row: "?db \<in> set [?db]" by simp
  have k: "key_of (JStr ''call-1'') = Inr (KStr ''call-1'')" by simp
  note T = commit_success_retires_session
    [OF linked_run row succeeds report_event_parts(1,3,4) k]
  from T have "map_of (sessions ?st') (session_id ?db) = None"
    and "lookup (call_to_session ?st') (KStr ''call-1'') = None"
    by blast+
  then have retired: "fst (vapi_webhook test_env linked_state (Inr (report_event ''call-1'' [] [])))
        = Status_ok
      \<and> map_of (sessions (fst (snd (vapi_webhook test_env linked_state
          (Inr (report_event ''call-1'' [] [])))))) ''session_team_lead_1'' = None
      \<and> lookup (call_to_session (fst (snd (vapi_webhook test_env linked_state
          (Inr (report_event ''call-1'' [] [])))))) (KStr ''call-1'') = None"
    by (simp add: linked_run default_row_def)
  have reached: "map_sum id snd
        (start_session test_env 2 ''2024-01-01T09:59:00'' one_session_state bob_request)
      = Inr two_sessions_state"
    by (rule example_states_reached(2))
  then obtain resp where
    run: "start_session test_env 2 ''2024-01-01T09:59:00'' one_session_state bob_request
            = Inr (resp, two_sessions_state)"
    by (cases "start_session test_env 2 ''2024-01-01T09:59:00'' one_session_state bob_request")
      auto
  from start_session_Inr [OF run] have "sessionId resp = ''session_team_lead_2''"
    by (auto simp: bob_request_def show_int_def show_nat.simps digit_char_def)
  then have other: "''session_team_lead_1'' \<noteq> sessionId resp"
    by simp
  have open_before: "?ann \<in> set (sessions one_session_state)"
    by (simp add: one_session_state_def)
  from T run have "\<forall>k v. (k, v) \<in> set (sessions one_session_state) \<and> k \<noteq> sessionId resp \<longrightarrow>
      (k, v) \<in> set (sessions two_sessions_state)"
    by blast
  with open_before other have "?ann \<in> set (sessions two_sessions_state)"
    by blast
  with succeeds retired reached show ?thesis by blast
qed

subsection \<open>The dispatcher\<close>

text \<open>
  Claim C7. The webhook answers every request with the dictionary \<^verbatim>\<open>{status: ok}\<close> or
  \<^verbatim>\<open>{status: error, message}\<close>. An exception raised inside the \<^verbatim>\<open>try\<close> block (by a body that
  is no JSON as well) becomes the error dictionary with the message of the exception and
  leaves the dictionaries as they were. An event type other than the two known ones is
  answered \<^verbatim>\<open>ok\<close>, with no change and no insert.
\<close>

theorem webhook_always_acknowledges:
  "(fst (vapi_webhook E st body) = Status_ok
      \<or> (\<exists>msg. fst (vapi_webhook E st body) = Status_error msg))
   \<and> (\<forall>e. vapi_webhook_try E st body = Inl e \<longrightarrow>
         vapi_webhook E st body = (Status_error (str_of_exn E e), st, []))
   \<and> (\<forall>payload message event.
         body = Inr payload \<and> dict_get payload ''message'' (JObj []) = Inr message
         \<and> event_type message payload = Inr event
         \<and> event \<noteq> JStr ''assistant-request'' \<and> event \<noteq> JStr ''end-of-call-report'' \<longrightarrow>
         vapi_webhook E st body = (Status_ok, st, []))"
proof (intro conjI allI impI)
  show "fst (vapi_webhook E st body) = Status_ok
      \<or> (\<exists>msg. fst (vapi_webhook E st body) = Status_error msg)"
    by (cases "fst (vapi_webhook E st body)") simp_all
next
  fix e assume "vapi_webhook_try E st body = Inl e"
  then show "vapi_webhook E st body = (Status_error (str_of_exn E e), st, [])"
    by (simp add: vapi_webhook_def)
next
  fix payload message event
  assume "body = Inr payload \<and> dict_get payload ''message'' (JObj []) = Inr message
         \<and> event_type message payload = Inr event
         \<and> event \<noteq> JStr ''assistant-request'' \<and> event \<noteq> JStr ''end-of-call-report''"
  then show "vapi_webhook E st body = (Status_ok, st, [])"
    by (simp add: vapi_webhook_def vapi_webhook_try_def)
qed

theorem webhook_always_acknowledges_witness:
  "vapi_webhook test_env linked_state (Inr (JObj [(''type'', JStr ''status-update'')]))
     = (Status_ok, linked_state, [])
   \<and> vapi_webhook test_env linked_state (Inr (JArr []))
     = (Status_error ''<exception>'', linked_state, [])"
proof -
  let ?payload = "JObj [(''type'', JStr ''status-update'')]"
  note T = webhook_always_acknowledges [of test_env linked_state]
  have "dict_get ?payload ''message'' (JObj []) = Inr (JObj [])"
    and "event_type (JObj []) ?payload = Inr (JStr ''status-update'')"
    by (simp_all add: event_type_def)
  with T [of "Inr ?payload"]
  have 1: "vapi_webhook test_env linked_state (Inr ?payload) = (Status_ok, linked_state, [])"
    by simp
  have "vapi_webhook_try test_env linked_state (Inr (JArr [])) = Inl AttributeError"
    by (simp add: vapi_webhook_try_def dict_get_def)
  with T [of "Inr (JArr [])"]
  have "vapi_webhook test_env linked_state (Inr (JArr []))
      = (Status_error (str_of_exn test_env AttributeError), linked_state, [])"
    by blast
  then have 2: "vapi_webhook test_env linked_state (Inr (JArr []))
      = (Status_error ''<exception>'', linked_state, [])"
    by (simp add: test_env_def)
  from 1 2 show ?thesis ..
qed

subsection \<open>Truncation of the free text\<close>

lemma text_field_Inr:
  assumes "text_field E structured key = Inr s"
  shows "\<exists>v. dict_get structured key (JStr ''N/A'') = Inr v \<and> s = take 500 (py_str E v)
    \<and> length s \<le> 500 \<and> (500 < length (py_str E v) \<longrightarrow> length s = 500)"
  using assms unfolding text_field_def by (elim bind_exn_InrE) auto

lemma long_text_run:
  "vapi_webhook test_env linked_state (Inr long_text_event) =
     (Status_ok, linked_state\<lparr>sessions := [], call_to_session := []\<rparr>,
      [(default_row ''session_team_lead_1'' ''Ann'')
         \<lparr>recommendation := replicate 500 CHR ''r'',
          transcript := JStr (replicate 3000 CHR ''t'')\<rparr>])"
  by (simp add: handler_defs example_defs long_text_event_def AList.delete_eq)

text \<open>
  Claim C9. In every row handed to the insert, each of the six free-text columns
  (recommendation, three strengths, two improvements) is the first 500 characters of
  \<^verbatim>\<open>str\<close> of the extracted value: at most 500 characters, and exactly 500 when the value is
  longer. A transcript that is a string is cut to its first 3000 characters, which are
  exactly 3000 when it is longer (a transcript that is a list is cut to 3000 elements).
\<close>

theorem free_text_truncated:
  assumes "vapi_webhook E st body = (r, st', ws)" and "db \<in> set ws"
  shows "\<exists>payload message structured tr.
      body = Inr payload \<and> dict_get payload ''message'' (JObj []) = Inr message
      \<and> structured_scores message = Inr structured
      \<and> dict_get message ''transcript'' (JStr ''No transcript available'') = Inr tr
      \<and> (\<forall>(key, field) \<in> set text_fields.
            \<exists>v. dict_get structured key (JStr ''N/A'') = Inr v
              \<and> field db = take 500 (py_str E v)
              \<and> length (field db) \<le> 500
              \<and> (500 < length (py_str E v) \<longrightarrow> length (field db) = 500))
      \<and> (\<forall>s. tr = JStr s \<longrightarrow>
            transcript db = JStr (take 3000 s)
            \<and> (3000 < length s \<longrightarrow> length (take 3000 s) = 3000))
      \<and> (\<forall>xs. tr = JArr xs \<longrightarrow> transcript db = JArr (take 3000 xs))"
proof -
  from assms(2) have "ws \<noteq> []" by auto
  with assms(1) obtain payload message sid sess db' tr structured dur where
    p: "body = Inr payload" "dict_get payload ''message'' (JObj []) = Inr message"
       "dict_get message ''transcript'' (JStr ''No transcript available'') = Inr tr"
       "structured_scores message = Inr structured"
    and b: "build_db_data E sid sess dur structured tr = Inr db'"
    and ws: "ws = [db']"
    by (rule vapi_webhook_commit)
  from ws assms(2) have "db' = db" by simp
  with b have b: "build_db_data E sid sess dur structured tr = Inr db" by simp
  note f = build_db_data_fields [OF b]
  have texts: "\<forall>(key, field) \<in> set text_fields.
            \<exists>v. dict_get structured key (JStr ''N/A'') = Inr v
              \<and> field db = take 500 (py_str E v)
              \<and> length (field db) \<le> 500
              \<and> (500 < length (py_str E v) \<longrightarrow> length (field db) = 500)"
    using text_field_Inr [OF f(7)] text_field_Inr [OF f(14)] text_field_Inr [OF f(15)]
      text_field_Inr [OF f(16)] text_field_Inr [OF f(17)] text_field_Inr [OF f(18)]
    by (simp add: text_fields_def)
  have tr_str: "transcript db = JStr (take 3000 s)
            \<and> (3000 < length s \<longrightarrow> length (take 3000 s) = 3000)" if "tr = JStr s" for s
    using f(8) that by simp
  have tr_arr: "transcript db = JArr (take 3000 xs)" if "tr = JArr xs" for xs
    using f(8) that by simp
  from p texts tr_str tr_arr show ?thesis by blast
qed

theorem free_text_truncated_witness:
  "map (length \<circ> recommendation) (snd (snd (vapi_webhook test_env linked_state (Inr long_text_event))))
     = [500]
   \<and> map transcript (snd (snd (vapi_webhook test_env linked_state (Inr long_text_event))))
     = [JStr (replicate 3000 CHR ''t'')]"
proof -
  let ?db = "(default_row ''session_team_lead_1'' ''Ann'')
         \<lparr>recommendation := replicate 500 CHR ''r'',
          transcript := JStr (replicate 3000 CHR ''t'')\<rparr>"
  let ?message = "report_message ''call-1'' []
       [(''transcript'', JStr (replicate 3500 CHR ''t'')),
        (''analysis'',
         JObj [(''structuredData'', JObj [(''rec'', JStr (replicate 600 CHR ''r''))])])]"
  have row: "?db \<in> set [?db]" by simp
  from free_text_truncated [OF long_text_run row] obtain message structured tr where
    m: "dict_get long_text_event ''message'' (JObj []) = Inr message"
    and s: "structured_scores message = Inr structured"
    and t: "dict_get message ''transcript'' (JStr ''No transcript available'') = Inr tr"
    and texts: "\<forall>(key, field) \<in> set text_fields.
            \<exists>v. dict_get structured key (JStr ''N/A'') = Inr v
              \<and> field ?db = take 500 (py_str test_env v)
              \<and> length (field ?db) \<le> 500
              \<and> (500 < length (py_str test_env v) \<longrightarrow> length (field ?db) = 500)"
    and trs: "\<forall>s. tr = JStr s \<longrightarrow>
            transcript ?db = JStr (take 3000 s)
            \<and> (3000 < length s \<longrightarrow> length (take 3000 s) = 3000)"
    by auto
  from m have message: "message = ?message"
    by (simp add: long_text_event_def report_event_def)
  with s have "structured = JObj [(''rec'', JStr (replicate 600 CHR ''r''))]"
    by (simp add: structured_scores_def report_message_def)
  with texts have "length (recommendation ?db) = 500"
    by (simp add: text_fields_def)
  moreover from t message have "tr = JStr (replicate 3500 CHR ''t'')"
    by (simp add: report_message_def)
  with trs have "transcript ?db = JStr (take 3000 (replicate 3500 CHR ''t''))"
    by blast
  ultimately show ?thesis
    by (simp add: long_text_run)
qed

subsection \<open>Duration\<close>

text \<open>
  What \<^verbatim>\<open>duration_min\<close> is, case by case: the clamped floor of the difference when both
  timestamps parse; 1 when one is missing (falsy); 1 when the end does not parse; but the
  whole epoch time of the end, in minutes, when only the start does not parse.
\<close>

lemma iso_to_ms_parsed:
  "fromisoformat_ms E (replace_Z s) = Some ms \<Longrightarrow> iso_to_ms E (JStr s) = ms"
  by (simp add: iso_to_ms_def)

lemma iso_to_ms_unparseable:
  "fromisoformat_ms E (replace_Z s) = None \<Longrightarrow> iso_to_ms E (JStr s) = 0"
  by (simp add: iso_to_ms_def)

lemma iso_to_ms_not_str:
  "\<forall>s. v \<noteq> JStr s \<Longrightarrow> iso_to_ms E v = 0"
  by (cases v) (auto simp: iso_to_ms_def)

lemma duration_min_parsed:
  assumes "s1 \<noteq> []" and "s2 \<noteq> []"
    and "fromisoformat_ms E (replace_Z s1) = Some start_ms"
    and "fromisoformat_ms E (replace_Z s2) = Some end_ms"
  shows "duration_min E (JStr s1) (JStr s2) = max 1 ((end_ms - start_ms) div 60000)"
  using assms by (simp add: duration_min_def iso_to_ms_def)

lemma duration_min_missing:
  assumes "\<not> truthy started_at \<or> \<not> truthy ended_at"
  shows "duration_min E started_at ended_at = 1"
  using assms by (auto simp: duration_min_def)

lemma duration_min_unparseable_end:
  assumes "iso_to_ms E ended_at = 0" and "0 \<le> iso_to_ms E started_at"
  shows "duration_min E started_at ended_at = 1"
proof -
  have "(0 - iso_to_ms E started_at) div 60000 \<le> 0 div 60000"
    using assms(2) by (intro zdiv_mono1) simp_all
  then show ?thesis using assms(1) by (simp add: duration_min_def)
qed

lemma duration_min_unparseable_start:
  assumes "truthy started_at" and "truthy ended_at" and "iso_to_ms E started_at = 0"
  shows "duration_min E started_at ended_at = max 1 (iso_to_ms E ended_at div 60000)"
  using assms by (simp add: duration_min_def)

lemma utc_examples:
  "utc_seconds_ms (replace_Z ''2024-01-01T10:00:00Z'') = Some 1704103200000"
  "utc_seconds_ms (replace_Z ''2024-01-01T10:07:30Z'') = Some 1704103650000"
  "utc_seconds_ms (replace_Z ''not-a-timestamp'') = None"
  by (simp_all add: replace_Z_def utc_seconds_ms_def field_def digit_val_def civil_to_ms_def
        days_in_month_def days_from_civil_def)

lemma duration_example:
  "duration_min test_env (JStr ''2024-01-01T10:00:00Z'') (JStr ''2024-01-01T10:07:30Z'') = 7"
  by (simp add: duration_min_def iso_to_ms_def test_env_def utc_examples)

lemma timed_run:
  "vapi_webhook test_env linked_state (Inr (timed_event started_at ended_at)) =
     (Status_ok, linked_state\<lparr>sessions := [], call_to_session := []\<rparr>,
      [(default_row ''session_team_lead_1'' ''Ann'')
         \<lparr>duration_minutes := duration_min test_env started_at ended_at\<rparr>])"
  by (simp add: handler_defs(1-15,18) example_defs timed_event_def AList.delete_eq)

lemma duration_unparseable_examples:
  "duration_min test_env (JStr ''not-a-timestamp'') (JStr ''2024-01-01T10:07:30Z'') = 28401727"
  "duration_min test_env (JStr ''2024-01-01T10:00:00Z'') (JStr ''not-a-timestamp'') = 1"
  by (simp_all add: duration_min_def iso_to_ms_def test_env_def utc_examples)

text \<open>
  Claim C2. The claim wants the duration 1 whenever a timestamp is missing or does not
  parse. The run below has a start that does not parse and an end that does: the row is
  handed to the insert with the 28401727 minutes between 1970-01-01 and the end of the
  call. The second run, with the two exchanged, gives 1.
\<close>

theorem unparseable_start_duration:
  "vapi_webhook test_env linked_state
     (Inr (timed_event (JStr ''not-a-timestamp'') (JStr ''2024-01-01T10:07:30Z''))) =
     (Status_ok, linked_state\<lparr>sessions := [], call_to_session := []\<rparr>,
      [(default_row ''session_team_lead_1'' ''Ann'')\<lparr>duration_minutes := 28401727\<rparr>])
   \<and> vapi_webhook test_env linked_state
     (Inr (timed_event (JStr ''2024-01-01T10:00:00Z'') (JStr ''not-a-timestamp''))) =
     (Status_ok, linked_state\<lparr>sessions := [], call_to_session := []\<rparr>,
      [(default_row ''session_team_lead_1'' ''Ann'')\<lparr>duration_minutes := 1\<rparr>])"
  by (simp only: timed_run duration_unparseable_examples)

subsection \<open>Session identifiers\<close>

text \<open>
  The decimal rendering is injective and has no underscore, so an identifier determines
  the role and the clock reading it was made from.
\<close>

lemma digit_cases:
  assumes "d < (10::nat)"
  shows "d = 0 \<or> d = 1 \<or> d = 2 \<or> d = 3 \<or> d = 4 \<or> d = 5 \<or> d = 6 \<or> d = 7 \<or> d = 8 \<or> d = 9"
  using assms by arith

lemma digit_char_in: "d < 10 \<Longrightarrow> digit_char d \<in> set ''0123456789''"
  using digit_cases [of d] by (auto simp: digit_char_def)

lemma digit_char_inj:
  assumes "a < 10" and "b < 10" and "digit_char a = digit_char b"
  shows "a = b"
  using digit_cases [OF assms(1)] digit_cases [OF assms(2)] assms(3)
  by (auto simp: digit_char_def)

lemma show_nat_digits: "set (show_nat n) \<subseteq> set ''0123456789''"
proof (induction n rule: show_nat.induct)
  case (1 n)
  show ?case
  proof (cases "n < 10")
    case True
    then show ?thesis using digit_char_in [of n] by (subst show_nat.simps) simp
  next
    case False
    moreover have "digit_char (n mod 10) \<in> set ''0123456789''"
      by (rule digit_char_in) simp
    ultimately show ?thesis using 1 by (subst show_nat.simps) simp
  qed
qed

lemma show_nat_not_Nil: "show_nat n \<noteq> []"
  by (subst show_nat.simps) simp

lemma show_nat_inj: "show_nat a = show_nat b \<Longrightarrow> a = b"
proof (induction a arbitrary: b rule: show_nat.induct)
  case (1 n)
  show ?case
  proof (cases "n < 10")
    case small: True
    show ?thesis
    proof (cases "b < 10")
      case True
      with small 1(2) show ?thesis
        by (simp add: show_nat.simps [of n] show_nat.simps [of b] digit_char_inj)
    next
      case False
      with small 1(2) show_nat_not_Nil [of "b div 10"] show ?thesis
        by (auto simp: show_nat.simps [of n] show_nat.simps [of b])
    qed
  next
    case big: False
    show ?thesis
    proof (cases "b < 10")
      case True
      with big 1(2) show_nat_not_Nil [of "n div 10"] show ?thesis
        by (auto simp: show_nat.simps [of n] show_nat.simps [of b])
    next
      case False
      with big 1(2) have "show_nat (n div 10) = show_nat (b div 10)"
        and "digit_char (n mod 10) = digit_char (b mod 10)"
        by (simp_all add: show_nat.simps [of n] show_nat.simps [of b])
      with 1(1) [OF big] have "n div 10 = b div 10" and "n mod 10 = b mod 10"
        by (simp_all add: digit_char_inj)
      then show ?thesis by (metis div_mult_mod_eq)
    qed
  qed
qed

lemma show_int_inj: "show_int i = show_int j \<Longrightarrow> i = j"
proof -
  assume eq: "show_int i = show_int j"
  have no_minus: "show_nat n \<noteq> CHR ''-'' # xs" for n xs
  proof
    assume "show_nat n = CHR ''-'' # xs"
    then have "CHR ''-'' \<in> set (show_nat n)" by simp
    with show_nat_digits [of n] show False by auto
  qed
  show "i = j"
  proof (cases "i < 0")
    case ni: True
    show ?thesis
    proof (cases "j < 0")
      case True
      with ni eq have "nat (- i) = nat (- j)"
        by (simp add: show_int_def show_nat_inj)
      with ni True show ?thesis by simp
    next
      case False
      with ni eq no_minus [of "nat j" "show_nat (nat (- i))"] show ?thesis
        by (simp add: show_int_def)
    qed
  next
    case pi: False
    show ?thesis
    proof (cases "j < 0")
      case True
      with pi eq no_minus [of "nat i" "show_nat (nat (- j))"] show ?thesis
        by (simp add: show_int_def)
    next
      case False
      with pi eq have "nat i = nat j"
        by (simp add: show_int_def show_nat_inj)
      with pi False show ?thesis by simp
    qed
  qed
qed

lemma show_int_no_underscore: "CHR ''_'' \<notin> set (show_int i)"
  using show_nat_digits [of "nat i"] show_nat_digits [of "nat (- i)"]
  by (auto simp: show_int_def)

lemma split_at_first:
  assumes "x \<notin> set xs" and "x \<notin> set xs'" and "xs @ x # ys = xs' @ x # ys'"
  shows "xs = xs' \<and> ys = ys'"
  using assms
proof (induction xs arbitrary: xs')
  case Nil
  then show ?case by (cases xs') auto
next
  case (Cons a xs)
  then show ?case by (cases xs') auto
qed

lemma session_id_inj:
  assumes "''session_'' @ r1 @ ''_'' @ show_int t1 = ''session_'' @ r2 @ ''_'' @ show_int t2"
  shows "r1 = r2 \<and> t1 = t2"
proof -
  from assms have "r1 @ CHR ''_'' # show_int t1 = r2 @ CHR ''_'' # show_int t2"
    by simp
  then have "rev (r1 @ CHR ''_'' # show_int t1) = rev (r2 @ CHR ''_'' # show_int t2)"
    by (rule arg_cong)
  then have "rev (show_int t1) @ CHR ''_'' # rev r1 = rev (show_int t2) @ CHR ''_'' # rev r2"
    by simp
  moreover have "CHR ''_'' \<notin> set (rev (show_int t1))" and "CHR ''_'' \<notin> set (rev (show_int t2))"
    using show_int_no_underscore by simp_all
  ultimately have "rev (show_int t1) = rev (show_int t2) \<and> rev r1 = rev r2"
    by (intro split_at_first [of "CHR ''_''"])
  then show ?thesis by (simp add: show_int_inj)
qed

text \<open>
  Claim C8, as stated, fails: two calls of \<^verbatim>\<open>start_session\<close> for the same role that read the
  same millisecond from the clock return the same identifier, and the second session
  replaces the first in \<^verbatim>\<open>sessions\<close>.
\<close>

theorem same_millisecond_collision:
  "same_millisecond_calls =
     Inr (''session_team_lead_1704103200000'', ''session_team_lead_1704103200000'', [''Bob''])"
  by (simp add: same_millisecond_calls_def start_session_def ROLES_def test_env_def
        initial_state_def ann_request_def bob_request_def store_def
        show_int_def show_nat.simps digit_char_def Let_def)

text \<open>
  Claim C8, amended. For a registered role with a configured assistant and an email that
  contains \<^verbatim>\<open>@\<close>, \<^verbatim>\<open>start_session\<close> returns the identifier \<^verbatim>\<open>session_<role>_<milliseconds>\<close>,
  which contains the role id; the identifiers of two calls are equal exactly when the two
  calls have the same role and read the same millisecond.
\<close>

theorem start_session_identifier:
  assumes "map_of (ROLES E) (req_role req) = Some rl"
    and "assistant_id rl = Some aid"
    and "aid \<noteq> []"
    and "CHR ''@'' \<in> set (req_user_email req)"
  shows "\<exists>resp st'.
      start_session E t started st req = Inr (resp, st')
      \<and> sessionId resp = ''session_'' @ req_role req @ ''_'' @ show_int t
      \<and> sublist (req_role req) (sessionId resp)
      \<and> (\<forall>E2 t2 started2 st2 req2 resp2 st2'.
            start_session E2 t2 started2 st2 req2 = Inr (resp2, st2') \<longrightarrow>
            (sessionId resp = sessionId resp2 \<longleftrightarrow> req_role req = req_role req2 \<and> t = t2))"
proof -
  from assms obtain resp st' where
    run: "start_session E t started st req = Inr (resp, st')"
    by (simp add: start_session_def Let_def)
  from start_session_Inr [OF run] have
    sid: "sessionId resp = ''session_'' @ req_role req @ ''_'' @ show_int t"
    by blast
  then have sub: "sublist (req_role req) (sessionId resp)"
    unfolding sublist_def by blast
  have "sessionId resp = sessionId resp2 \<longleftrightarrow> req_role req = req_role req2 \<and> t = t2"
    if "start_session E2 t2 started2 st2 req2 = Inr (resp2, st2')"
    for E2 t2 started2 st2 req2 resp2 st2'
  proof -
    from start_session_Inr [OF that] have
      "sessionId resp2 = ''session_'' @ req_role req2 @ ''_'' @ show_int t2"
      by blast
    with sid session_id_inj [of "req_role req" t "req_role req2" t2] show ?thesis
      by auto
  qed
  with run sid sub show ?thesis by blast
qed

theorem start_session_identifier_witness:
  "map_of (ROLES test_env) (req_role ann_request) \<noteq> None
   \<and> CHR ''@'' \<in> set (req_user_email ann_request)
   \<and> map_sum id (sessionId \<circ> fst)
       (start_session test_env 1704103200000 ''2024-01-01T10:00:00.000100'' initial_state ann_request)
     = Inr ''session_team_lead_1704103200000''
   \<and> map_sum id (sessionId \<circ> fst)
       (start_session test_env 1704103200000 ''2024-01-01T10:00:00.000100'' initial_state ann_request)
     \<noteq> map_sum id (sessionId \<circ> fst)
       (start_session test_env 1704103200001 ''2024-01-01T10:00:00.001100'' initial_state bob_request)"
proof -
  let ?rl = "\<lparr>title = ''Team Lead'',
        description = ''Technical leadership and team management'',
        assistant_id = Some ''asst-tl'',
        criteria = [''Mentoring'', ''Technical Decisions'', ''Communication'',
          ''Conflict Resolution'', ''Process''],
        scenario = ''Team velocity dropped 35% and two senior developers resigned. What's happening?''\<rparr>"
  have role: "map_of (ROLES test_env) (req_role ann_request) = Some ?rl"
    by (simp add: ROLES_def test_env_def ann_request_def)
  have configured: "assistant_id ?rl = Some ''asst-tl''" and ne: "''asst-tl'' \<noteq> []"
    by simp_all
  have email: "CHR ''@'' \<in> set (req_user_email ann_request)"
    by (simp add: ann_request_def)
  from start_session_identifier [OF role configured ne email,
      of 1704103200000 "''2024-01-01T10:00:00.000100''" initial_state]
  obtain resp st' where
    run: "start_session test_env 1704103200000 ''2024-01-01T10:00:00.000100'' initial_state
            ann_request = Inr (resp, st')"
    and sid: "sessionId resp = ''session_'' @ req_role ann_request @ ''_'' @ show_int 1704103200000"
    and uniq: "\<And>E2 t2 started2 st2 req2 resp2 st2'.
            start_session E2 t2 started2 st2 req2 = Inr (resp2, st2') \<Longrightarrow>
            (sessionId resp = sessionId resp2 \<longleftrightarrow>
               req_role ann_request = req_role req2 \<and> 1704103200000 = t2)"
    by blast
  from sid have sid': "sessionId resp = ''session_team_lead_1704103200000''"
    by (simp add: ann_request_def show_int_def show_nat.simps digit_char_def)
  obtain resp2 st2' where
    run2: "start_session test_env 1704103200001 ''2024-01-01T10:00:00.001100'' initial_state
            bob_request = Inr (resp2, st2')"
    by (simp add: start_session_def ROLES_def test_env_def bob_request_def Let_def)
  from uniq [OF run2] have "sessionId resp \<noteq> sessionId resp2"
    by simp
  with role email run run2 sid' show ?thesis by simp
qed

end
